theory Spec2Isabelle
  imports Complex_Main
begin

section \<open>Data model of the hard integrator (src/src/hard.hpp)\<close>

text \<open>
  The C++ types \<^verbatim>\<open>PS::F64\<close> and \<^verbatim>\<open>Float\<close> are modelled by \<^typ>\<open>real\<close>: all arithmetic
  is exact, rounding, infinities and NaN are outside the model. \<^verbatim>\<open>PS::F64vec\<close> is a
  triple of reals with the component-wise operations the source uses. Integer
  addresses and counters (\<^verbatim>\<open>PS::S32\<close>, \<^verbatim>\<open>PS::S64\<close>) are \<^typ>\<open>int\<close> where they can be
  negative in the source and \<^typ>\<open>nat\<close> where they index an array.
\<close>

type_synonym F64vec = "real \<times> real \<times> real"

fun vadd :: "F64vec \<Rightarrow> F64vec \<Rightarrow> F64vec" where
  "vadd (a1, a2, a3) (b1, b2, b3) = (a1 + b1, a2 + b2, a3 + b3)"

fun vsub :: "F64vec \<Rightarrow> F64vec \<Rightarrow> F64vec" where
  "vsub (a1, a2, a3) (b1, b2, b3) = (a1 - b1, a2 - b2, a3 - b3)"

fun vscale :: "real \<Rightarrow> F64vec \<Rightarrow> F64vec" where
  "vscale c (a1, a2, a3) = (c * a1, c * a2, c * a3)"

fun vdot :: "F64vec \<Rightarrow> F64vec \<Rightarrow> real" where
  "vdot (a1, a2, a3) (b1, b2, b3) = a1 * b1 + a2 * b2 + a3 * b3"

fun vdiv :: "F64vec \<Rightarrow> real \<Rightarrow> F64vec" where
  "vdiv (a1, a2, a3) c = (a1 / c, a2 / c, a3 / c)"

definition vzero :: F64vec where
  "vzero = (0, 0, 0)"

text \<open>
  Modelled from the spec: the class \<^verbatim>\<open>ChangeOver\<close> (changeover.hpp is not part of the
  sources at hand). The spec's ChangeoverState has the inner and the outer blending
  radius and the pending multiplier \<^verbatim>\<open>r_scale_next\<close>; \<^verbatim>\<open>getRin()\<close> and \<^verbatim>\<open>getRout()\<close> read
  the two radii.
\<close>

record ChangeOver =
  r_in :: real
  r_out :: real
  r_scale_next :: real

text \<open>
  One record stands for the particle types of the source (\<^verbatim>\<open>Ptcl\<close>, \<^verbatim>\<open>PtclH4\<close>, the
  elements of the global store \<^verbatim>\<open>_sys\<close>): it has every field hard.hpp reads or writes.
  \<^verbatim>\<open>status\<close> and \<^verbatim>\<open>mass_bk\<close> are the \<^verbatim>\<open>.d\<close> members of the source's unions; the field
  \<^verbatim>\<open>id\<close> is \<open>ptcl_id\<close>. The store \<^verbatim>\<open>_sys\<close> and the buffer \<^verbatim>\<open>ptcl_hard_\<close> are lists of
  particles, read and written by index.
\<close>

record Ptcl =
  mass :: real
  pos :: F64vec
  vel :: F64vec
  acc :: F64vec
  pot_tot :: real
  r_search :: real
  status :: real
  mass_bk :: real
  ptcl_id :: int
  adr_org :: int
  changeover :: ChangeOver

text \<open>
  The parameter bundle \<^verbatim>\<open>HardManager\<close>, without the two integrator managers.
\<close>

record HardManager =
  energy_error_max :: real
  r_tidal_tensor :: real
  r_in_base :: real
  r_out_base :: real
  eps_sq :: real
  id_offset :: int
  n_split :: int

text \<open>
  The static functions \<^verbatim>\<open>ChangeOver::calcAcc0WTwo\<close> and \<^verbatim>\<open>ChangeOver::calcPotWTwo\<close> are
  declared in changeover.hpp, which is not part of the sources at hand. They are
  parameters of the model: a function of the two changeover states and of the
  separation.
\<close>

record ChangeOverKernel =
  calcAcc0WTwo :: "ChangeOver \<Rightarrow> ChangeOver \<Rightarrow> real \<Rightarrow> real"
  calcPotWTwo :: "ChangeOver \<Rightarrow> ChangeOver \<Rightarrow> real \<Rightarrow> real"

text \<open>
  Modelled from the spec: \<^verbatim>\<open>ChangeOver::setR(r_in, r_out)\<close> on a freshly constructed
  object, and \<^verbatim>\<open>ChangeOver::updateWithRScale\<close>, which "commits the staged radii and
  resets the multiplier to 1".
\<close>

definition setR :: "real \<Rightarrow> real \<Rightarrow> ChangeOver" where
  "setR rin rout = \<lparr>r_in = rin, r_out = rout, r_scale_next = 1\<rparr>"

definition updateWithRScale :: "ChangeOver \<Rightarrow> ChangeOver" where
  "updateWithRScale ch =
     \<lparr>r_in = r_in ch * r_scale_next ch, r_out = r_out ch * r_scale_next ch, r_scale_next = 1\<rparr>"

section \<open>The pairwise correction primitive: calcAccPotShortWithLinearCutoff\<close>

text \<open>
  The overload for a source \<^verbatim>\<open>const Ptcl& _pj\<close>. \<open>only_soft\<close> says whether the build
  defines \<^verbatim>\<open>ONLY_SOFT\<close>. Where the softened squared separation \<^verbatim>\<open>dr2_eps\<close> is 0 the
  source divides by zero; HOL's \<open>1 / 0 = 0\<close> is not what the machine does there, and the
  theorems below assume a positive \<^verbatim>\<open>dr2_eps\<close>.
\<close>

definition calcAccPotShortWithLinearCutoff ::
  "ChangeOverKernel \<Rightarrow> bool \<Rightarrow> HardManager \<Rightarrow> Ptcl \<Rightarrow> Ptcl \<Rightarrow> Ptcl" where
  "calcAccPotShortWithLinearCutoff ck only_soft manager p_i p_j =
     (let dr = vsub (pos p_i) (pos p_j);
          dr2 = vdot dr dr;
          dr2_eps = dr2 + eps_sq manager;
          drinv = 1 / sqrt dr2_eps;
          movr = mass p_j * drinv;
          drinv2 = drinv * drinv;
          movr3 = movr * drinv2;
          dr_eps = drinv * dr2_eps;
          k = 1 - calcAcc0WTwo ck (changeover p_i) (changeover p_j) dr_eps;
          rout = r_out_base manager;
          r_out2 = rout * rout;
          dr2_max = (if dr2_eps > r_out2 then dr2_eps else r_out2);
          drinv_max = 1 / sqrt dr2_max;
          movr_max = mass p_j * drinv_max;
          drinv2_max = drinv_max * drinv_max;
          movr3_max = movr_max * drinv2_max;
          kpot = 1 - calcPotWTwo ck (changeover p_i) (changeover p_j) dr_eps;
          pot1 =
            (if only_soft then
               (if status p_j = 0 then
                  pot_tot p_i - (if dr2_eps > r_out2 then 0 else movr * kpot - movr_max)
                else if status p_j < 0 then
                  pot_tot p_i - (if dr2_eps > r_out2 then 0 else mass_bk p_j * drinv * kpot - movr_max)
                else pot_tot p_i + movr_max)
             else
               (if status p_j = 0 then pot_tot p_i - (movr - movr_max)
                else if status p_j < 0 then pot_tot p_i - (mass_bk p_j * drinv - movr_max)
                else pot_tot p_i + movr_max))
      in p_i\<lparr>pot_tot := pot1, acc := vsub (acc p_i) (vscale (movr3 * k - movr3_max) dr)\<rparr>)"

text \<open>
  The overload for a tree neighbour \<^verbatim>\<open>const EPJSoft& _pj\<close>. An \<^verbatim>\<open>EPJSoft\<close> has the
  fields id, mass, pos, r_in, r_out, r_scale_next, status and mass_bk; it is modelled
  by a \<^typ>\<open>Ptcl\<close> whose \<open>changeover\<close> holds the three radii fields. The source builds a
  new \<^verbatim>\<open>ChangeOver chj\<close> from \<^verbatim>\<open>_pj.r_in\<close> and \<^verbatim>\<open>_pj.r_out\<close>.
\<close>

definition calcAccPotShortWithLinearCutoffEPJ ::
  "ChangeOverKernel \<Rightarrow> bool \<Rightarrow> HardManager \<Rightarrow> Ptcl \<Rightarrow> Ptcl \<Rightarrow> Ptcl" where
  "calcAccPotShortWithLinearCutoffEPJ ck only_soft manager p_i p_j =
     (let dr = vsub (pos p_i) (pos p_j);
          dr2 = vdot dr dr;
          dr2_eps = dr2 + eps_sq manager;
          rout = r_out_base manager;
          r_out2 = rout * rout;
          drinv = 1 / sqrt dr2_eps;
          movr = mass p_j * drinv;
          drinv2 = drinv * drinv;
          movr3 = movr * drinv2;
          dr_eps = drinv * dr2_eps;
          chj = setR (r_in (changeover p_j)) (r_out (changeover p_j));
          k = 1 - calcAcc0WTwo ck (changeover p_i) chj dr_eps;
          dr2_max = (if dr2_eps > r_out2 then dr2_eps else r_out2);
          drinv_max = 1 / sqrt dr2_max;
          movr_max = mass p_j * drinv_max;
          drinv2_max = drinv_max * drinv_max;
          movr3_max = movr_max * drinv2_max;
          kpot = 1 - calcPotWTwo ck (changeover p_i) chj dr_eps;
          pot1 =
            (if only_soft then
               (if status p_j = 0 then
                  pot_tot p_i - (if dr2_eps > r_out2 then 0 else movr * kpot - movr_max)
                else if status p_j < 0 then
                  pot_tot p_i - (if dr2_eps > r_out2 then 0 else mass_bk p_j * drinv * kpot - movr_max)
                else pot_tot p_i + movr_max)
             else
               (if status p_j = 0 then pot_tot p_i - (movr - movr_max)
                else if status p_j < 0 then pot_tot p_i - (mass_bk p_j * drinv - movr_max)
                else pot_tot p_i + movr_max))
      in p_i\<lparr>pot_tot := pot1, acc := vsub (acc p_i) (vscale (movr3 * k - movr3_max) dr)\<rparr>)"

text \<open>
  The quantities the specification names, written from its words: the softened
  separation of \<open>i\<close> and \<open>j\<close>, the separation clamped up to \<^verbatim>\<open>r_out_base\<close>, the softened
  Newtonian acceleration of \<open>i\<close> due to the mass of \<open>j\<close> (it points from \<open>i\<close> to \<open>j\<close>), the
  same acceleration at the clamped separation, and the two-sided changeover weight
  at the softened separation.
\<close>

definition softened_separation :: "HardManager \<Rightarrow> Ptcl \<Rightarrow> Ptcl \<Rightarrow> real" where
  "softened_separation manager p_i p_j =
     sqrt (vdot (vsub (pos p_i) (pos p_j)) (vsub (pos p_i) (pos p_j)) + eps_sq manager)"

definition clamped_separation :: "HardManager \<Rightarrow> Ptcl \<Rightarrow> Ptcl \<Rightarrow> real" where
  "clamped_separation manager p_i p_j = max (softened_separation manager p_i p_j) (r_out_base manager)"

definition exact_pairwise_accel :: "HardManager \<Rightarrow> Ptcl \<Rightarrow> Ptcl \<Rightarrow> F64vec" where
  "exact_pairwise_accel manager p_i p_j =
     vscale (- (mass p_j / softened_separation manager p_i p_j ^ 3)) (vsub (pos p_i) (pos p_j))"

definition linear_cutoff_term :: "HardManager \<Rightarrow> Ptcl \<Rightarrow> Ptcl \<Rightarrow> F64vec" where
  "linear_cutoff_term manager p_i p_j =
     vscale (- (mass p_j / clamped_separation manager p_i p_j ^ 3)) (vsub (pos p_i) (pos p_j))"

definition changeover_weight :: "ChangeOverKernel \<Rightarrow> HardManager \<Rightarrow> Ptcl \<Rightarrow> Ptcl \<Rightarrow> real" where
  "changeover_weight ck manager p_i p_j =
     calcAcc0WTwo ck (changeover p_i) (changeover p_j) (softened_separation manager p_i p_j)"

section \<open>Isolated single particles: driveForOneCluster\<close>

text \<open>
  Modelled from the spec: \<^verbatim>\<open>Ptcl::calcRSearch\<close> (ptcl.hpp is not part of the sources at
  hand). The spec says that it recomputes the search radius of the particle; the new
  radius is the parameter \<open>rs\<close>, a function of the particle and of the step.
\<close>

definition calcRSearch :: "(Ptcl \<Rightarrow> real \<Rightarrow> real) \<Rightarrow> real \<Rightarrow> Ptcl \<Rightarrow> Ptcl" where
  "calcRSearch rs dt p = p\<lparr>r_search := rs p dt\<rparr>"

text \<open>The body of the loop of \<^verbatim>\<open>driveForOneCluster\<close>, for the particle at index \<open>i\<close>.\<close>

definition driveOneParticle :: "(Ptcl \<Rightarrow> real \<Rightarrow> real) \<Rightarrow> real \<Rightarrow> Ptcl \<Rightarrow> Ptcl" where
  "driveOneParticle rs dt p =
     (let dr = vscale dt (vel p);
          p1 = p\<lparr>pos := vadd (pos p) dr\<rparr>
      in calcRSearch rs dt p1)"

text \<open>
  \<^verbatim>\<open>for(i=0; i<n; i++)\<close> over \<^verbatim>\<open>ptcl_hard_\<close>, updating the array in place. The OpenMP
  variant runs the same iterations, each on its own element.
\<close>

definition driveForOneCluster :: "(Ptcl \<Rightarrow> real \<Rightarrow> real) \<Rightarrow> real \<Rightarrow> Ptcl list \<Rightarrow> Ptcl list" where
  "driveForOneCluster rs dt ptcl_hard =
     fold (\<lambda>i ps. ps[i := driveOneParticle rs dt (ps ! i)]) [0..<length ptcl_hard] ptcl_hard"

definition driveForOneClusterOMP :: "(Ptcl \<Rightarrow> real \<Rightarrow> real) \<Rightarrow> real \<Rightarrow> Ptcl list \<Rightarrow> Ptcl list" where
  "driveForOneClusterOMP rs dt ptcl_hard =
     fold (\<lambda>i ps. ps[i := driveOneParticle rs dt (ps ! i)]) [0..<length ptcl_hard] ptcl_hard"

section \<open>The per-cluster drive routine: driveForMultiClusterImpl\<close>

text \<open>
  The layout of one block of artificial particles. \<^verbatim>\<open>GroupPars\<close> is declared outside
  the sources at hand; what \<^verbatim>\<open>GroupPars::init(n_split)\<close> computes is a parameter of
  the model: the size of a block and the offsets of the tidal-tensor samples, of the
  orbital samples and of the centre-of-mass particle within it.
\<close>

record GroupPars =
  n_ptcl_artifical :: nat
  offset_tt :: nat
  offset_orb :: nat
  offset_cm :: nat

text \<open>
  The ways the process stops: a failed \<^verbatim>\<open>ASSERT\<close> or \<^verbatim>\<open>assert\<close>, the abort after the
  energy check, which first writes the dump file it names, and an integer division by
  zero.
\<close>

datatype abort = AssertFailed | EnergyAbort string | DivisionByZero

text \<open>
  The two branches of the routine. Each constructs an integrator of a library that is
  not part of the sources at hand (the symplectic AR integrator, the Hermite
  integrator) and runs it to the end of the step. A branch is a parameter of the
  model: from the manager, the cluster's particles, its artificial particles and the
  step it gives the particles written back, the artificial particles, and the total
  energy before and after the integration (\<^verbatim>\<open>etoti\<close>, \<^verbatim>\<open>etotf\<close>), or it stops on a
  failed \<^verbatim>\<open>ASSERT\<close> of its own.
\<close>

type_synonym integration =
  "HardManager \<Rightarrow> Ptcl list \<Rightarrow> Ptcl list \<Rightarrow> real \<Rightarrow> abort + (Ptcl list \<times> Ptcl list \<times> real \<times> real)"

record Engines =
  single_group_path :: integration
  mixed_path :: integration

datatype path = SingleGroupAR | MixedHermite

text \<open>
  The build: whether \<^verbatim>\<open>HARD_CHECK_ENERGY\<close> is defined, whether the macro
  \<^verbatim>\<open>ASSERT\<close> checks its argument, and the function that the unqualified call
  \<^verbatim>\<open>abs(hard_dE_local)\<close> of the energy check resolves to. hard.hpp itself includes
  \<^verbatim>\<open>cstdlib\<close> and has no using-declaration; which overloads of \<^verbatim>\<open>abs\<close> are visible
  in the global namespace is decided by the headers of the libraries and of the
  compiler, which are not part of the sources at hand. With an overload for the type
  \<^verbatim>\<open>Float\<close> visible the call gives the absolute value (\<open>abs_floating\<close>); with only
  \<^verbatim>\<open>int abs(int)\<close> visible the argument is first converted to \<^verbatim>\<open>int\<close>, which drops
  its fractional part (\<open>abs_int\<close>; a value outside the range of \<^verbatim>\<open>int\<close> is outside the
  model).
\<close>

record Build =
  hard_check_energy :: bool
  assert_checks :: bool
  abs_overload :: "real \<Rightarrow> real"

definition abs_floating :: "real \<Rightarrow> real" where
  "abs_floating x = \<bar>x\<bar>"

definition abs_int :: "real \<Rightarrow> real" where
  "abs_int x = real_of_int \<bar>if 0 \<le> x then \<lfloor>x\<rfloor> else \<lceil>x\<rceil>\<bar>"

text \<open>
  \<^verbatim>\<open>HardManager::checkParams\<close>; the answers of the two integrator managers are
  parameters.
\<close>

definition checkParams :: "bool \<Rightarrow> bool \<Rightarrow> HardManager \<Rightarrow> bool" where
  "checkParams h4_ok ar_ok manager =
     (energy_error_max manager > 0 \<and> r_tidal_tensor manager \<ge> 0 \<and> r_in_base manager > 0
      \<and> r_out_base manager > 0 \<and> eps_sq manager \<ge> 0 \<and> id_offset manager > 0
      \<and> n_split manager > 0 \<and> h4_ok \<and> ar_ok)"

text \<open>
  \<^verbatim>\<open>n_group_offset[i]\<close>: the number of members of the groups before group \<open>i\<close>. The
  member count of group \<open>i\<close> is what \<^verbatim>\<open>getGroupIndex\<close> decodes from the block of
  artificial particles of the group; the decoding is the parameter \<open>n_members\<close>.
\<close>

fun n_group_offset :: "(nat \<Rightarrow> nat) \<Rightarrow> nat \<Rightarrow> nat" where
  "n_group_offset n_members 0 = 0"
| "n_group_offset n_members (Suc i) = n_group_offset n_members i + n_members i"

definition route :: "nat \<Rightarrow> int \<Rightarrow> path" where
  "route n_group n_single_init =
     (if n_group = 1 \<and> n_single_init = 0 then SingleGroupAR else MixedHermite)"

text \<open>
  The end of the routine under \<^verbatim>\<open>HARD_CHECK_ENERGY\<close>; \<^verbatim>\<open>abs\<close> is the function the
  build resolves it to.
\<close>

definition checkEnergy ::
  "Build \<Rightarrow> HardManager \<Rightarrow> real \<Rightarrow> real \<Rightarrow> real \<Rightarrow> abort + real" where
  "checkEnergy build manager hard_dE etoti etotf =
     (let hard_dE_local = etotf - etoti;
          hard_dE1 = hard_dE + hard_dE_local
      in if abs_overload build hard_dE_local > energy_error_max manager
         then Inl (EnergyAbort ''hard_dump'')
         else Inr hard_dE1)"

text \<open>
  The set-up of the routine: the backup mass of every group member is cleared, and
  the mass of the centre-of-mass particle of every group is recovered from its backup
  slot.
\<close>

definition recoverMembers :: "nat \<Rightarrow> Ptcl list \<Rightarrow> Ptcl list" where
  "recoverMembers i_single_start ptcl_local =
     fold (\<lambda>i ps. ps[i := (ps ! i)\<lparr>mass_bk := 0\<rparr>]) [0..<i_single_start] ptcl_local"

definition recoverCm :: "GroupPars \<Rightarrow> nat \<Rightarrow> Ptcl list \<Rightarrow> Ptcl list" where
  "recoverCm gpars n_group ptcl_artifical =
     fold (\<lambda>i ps. let icm = i * n_ptcl_artifical gpars + offset_cm gpars
                   in ps[icm := (ps ! icm)\<lparr>mass := mass_bk (ps ! icm)\<rparr>])
       [0..<n_group] ptcl_artifical"

text \<open>The branch on \<^verbatim>\<open>_n_group==1&&n_single_init==0\<close>.\<close>

definition integrateCluster ::
  "Engines \<Rightarrow> HardManager \<Rightarrow> nat \<Rightarrow> int \<Rightarrow> Ptcl list \<Rightarrow> Ptcl list \<Rightarrow> real
     \<Rightarrow> abort + (Ptcl list \<times> Ptcl list \<times> real \<times> real)" where
  "integrateCluster engines manager n_group n_single_init ptcl_local ptcl_artifical dt =
     (case route n_group n_single_init of
        SingleGroupAR \<Rightarrow> single_group_path engines manager ptcl_local ptcl_artifical dt
      | MixedHermite \<Rightarrow> mixed_path engines manager ptcl_local ptcl_artifical dt)"

text \<open>
  The end of the routine: with \<^verbatim>\<open>HARD_CHECK_ENERGY\<close> the energy error is accumulated
  and checked.
\<close>

definition finishDrive ::
  "Build \<Rightarrow> HardManager \<Rightarrow> real \<Rightarrow> abort + (Ptcl list \<times> Ptcl list \<times> real \<times> real)
     \<Rightarrow> abort + (Ptcl list \<times> Ptcl list \<times> real)" where
  "finishDrive build manager hard_dE integrated =
     (case integrated of
        Inl a \<Rightarrow> Inl a
      | Inr (ptcl_local2, ptcl_artifical2, etoti, etotf) \<Rightarrow>
          if hard_check_energy build then
            (case checkEnergy build manager hard_dE etoti etotf of
               Inl a \<Rightarrow> Inl a
             | Inr hard_dE1 \<Rightarrow> Inr (ptcl_local2, ptcl_artifical2, hard_dE1))
          else Inr (ptcl_local2, ptcl_artifical2, hard_dE))"

text \<open>
  The routine: the cluster's particles \<^verbatim>\<open>_ptcl_local\<close> (\<^verbatim>\<open>_n_ptcl\<close> of them), the
  artificial particles of its \<^verbatim>\<open>_n_group\<close> groups, the step, and the accumulated energy
  error \<^verbatim>\<open>hard_dE\<close> of the object. It returns the particles, the artificial particles
  and the accumulated energy error, or the way the process stopped.
\<close>

definition driveForMultiClusterImpl ::
  "Build \<Rightarrow> Engines \<Rightarrow> bool \<Rightarrow> bool \<Rightarrow> HardManager \<Rightarrow> GroupPars \<Rightarrow> (Ptcl list \<Rightarrow> nat \<Rightarrow> nat)
     \<Rightarrow> Ptcl list \<Rightarrow> nat \<Rightarrow> Ptcl list \<Rightarrow> nat \<Rightarrow> real \<Rightarrow> real
     \<Rightarrow> abort + (Ptcl list \<times> Ptcl list \<times> real)" where
  "driveForMultiClusterImpl build engines h4_ok ar_ok manager gpars getGroupIndex
       ptcl_local n_ptcl ptcl_artifical n_group dt hard_dE =
     (if assert_checks build \<and> \<not> checkParams h4_ok ar_ok manager then Inl AssertFailed
      else
        let n_members = (\<lambda>i. getGroupIndex ptcl_artifical (i * n_ptcl_artifical gpars));
            i_single_start = n_group_offset n_members n_group;
            n_single_init = int n_ptcl - int i_single_start;
            ptcl_local1 = recoverMembers i_single_start ptcl_local;
            ptcl_artifical1 = recoverCm gpars n_group ptcl_artifical
        in finishDrive build manager hard_dE
             (integrateCluster engines manager n_group n_single_init ptcl_local1 ptcl_artifical1 dt))"

section \<open>The force corrections with the linear cutoff\<close>

text \<open>
  The members of \<^verbatim>\<open>SystemHard\<close>: the buffer of hard particles, the cluster and group
  bookkeeping, the clusters with a staged changeover radius and the count of remote
  group members. The \<^verbatim>\<open>...Imp\<close> functions of the source take some of them as
  arguments; the public wrappers pass the members of the object, and so does the
  model.
\<close>

record SystemHard =
  ptcl_hard :: "Ptcl list"
  n_ptcl_in_cluster :: "nat list"
  n_ptcl_in_cluster_disp :: "nat list"
  n_group_in_cluster :: "nat list"
  n_group_in_cluster_offset :: "nat list"
  adr_first_ptcl_arti_in_cluster :: "nat list"
  i_cluster_changeover_update :: "nat list"
  n_group_member_remote :: nat

text \<open>
  The model is of a build without \<^verbatim>\<open>KDKDK_4TH\<close>: there \<^verbatim>\<open>_acorr_flag\<close> has no effect.
  (The code under that macro reads \<^verbatim>\<open>manager->changeover\<close>, a member that
  \<^verbatim>\<open>HardManager\<close> does not have.) The loops under \<^verbatim>\<open>#pragma omp parallel for\<close> are run
  in index order. A negative address used as an index is outside the model: the
  theorems assume the addresses they read to be in range.

  The neighbour search of the tree, \<^verbatim>\<open>_tree.getNeighborListOneParticle\<close>, is a
  parameter: it gives the list of neighbours of a particle.
\<close>

definition correctForceWithCutoffTreeNeighborOneParticleImp ::
  "ChangeOverKernel \<Rightarrow> bool \<Rightarrow> HardManager \<Rightarrow> (Ptcl \<Rightarrow> Ptcl list) \<Rightarrow> Ptcl \<Rightarrow> Ptcl" where
  "correctForceWithCutoffTreeNeighborOneParticleImp ck only_soft manager getNeighborListOneParticle psoft =
     (let ptcl_nb = getNeighborListOneParticle psoft;
          psoft1 = (if status psoft = 0
                    then psoft\<lparr>pot_tot := pot_tot psoft + mass psoft / r_out_base manager\<rparr>
                    else psoft)
      in fold (\<lambda>nb p. if ptcl_id nb = ptcl_id p then p
                       else calcAccPotShortWithLinearCutoffEPJ ck only_soft manager p nb)
           ptcl_nb psoft1)"

text \<open>
  The end of the treatment of one group, with its first artificial particle at
  \<open>j_start\<close>: the acceleration of the centre-of-mass particle is subtracted from the
  tidal-tensor samples, and is then replaced by the sum of \<open>mass * acc\<close> over the orbital
  samples divided by the sum of their masses. \<^verbatim>\<open>acc_cm\<close> is a reference into the
  store, so every use reads or writes the store.
\<close>

definition subtractCmFromTidalTensor :: "GroupPars \<Rightarrow> nat \<Rightarrow> Ptcl list \<Rightarrow> Ptcl list" where
  "subtractCmFromTidalTensor gpars j_start sys =
     fold (\<lambda>k s. s[j_start + k := (s ! (j_start + k))
                     \<lparr>acc := vsub (acc (s ! (j_start + k))) (acc (s ! (j_start + offset_cm gpars)))\<rparr>])
       [offset_tt gpars..<offset_orb gpars] sys"

definition sumOrbital :: "nat \<Rightarrow> nat \<Rightarrow> Ptcl list \<times> real \<Rightarrow> Ptcl list \<times> real" where
  "sumOrbital j_cm k sm =
     (case sm of (s, m_ob_tot) \<Rightarrow>
        (s[j_cm := (s ! j_cm)\<lparr>acc := vadd (acc (s ! j_cm)) (vscale (mass (s ! k)) (acc (s ! k)))\<rparr>],
         m_ob_tot + mass (s ! k)))"

definition replaceCmByOrbitalAverage :: "GroupPars \<Rightarrow> nat \<Rightarrow> Ptcl list \<Rightarrow> Ptcl list" where
  "replaceCmByOrbitalAverage gpars j_start sys =
     (let j_cm = j_start + offset_cm gpars;
          s0 = sys[j_cm := (sys ! j_cm)\<lparr>acc := vzero\<rparr>];
          sm = fold (sumOrbital j_cm) [j_start + offset_orb gpars..<j_cm] (s0, 0);
          s1 = fst sm;
          m_ob_tot = snd sm
      in s1[j_cm := (s1 ! j_cm)\<lparr>acc := vdiv (acc (s1 ! j_cm)) m_ob_tot\<rparr>])"

definition correctCmOfGroup :: "GroupPars \<Rightarrow> nat \<Rightarrow> Ptcl list \<Rightarrow> Ptcl list" where
  "correctCmOfGroup gpars j_start sys =
     replaceCmByOrbitalAverage gpars j_start (subtractCmFromTidalTensor gpars j_start sys)"

text \<open>
  \<^verbatim>\<open>correctForceWithCutoffArtificalOneClusterImp\<close>. First the body of the loop over the
  artificial particles \<open>k\<close> of a group: \<open>k\<close> is corrected for the orbital samples of every
  group of the cluster and for the cluster's real particles. Then the body of the
  loop over the groups \<open>j\<close>, and the loop.
\<close>

definition correctArtificalParticle ::
  "ChangeOverKernel \<Rightarrow> bool \<Rightarrow> HardManager \<Rightarrow> GroupPars \<Rightarrow> Ptcl list \<Rightarrow> nat \<Rightarrow> nat \<Rightarrow> nat
     \<Rightarrow> nat list \<Rightarrow> nat \<Rightarrow> Ptcl list \<Rightarrow> Ptcl list" where
  "correctArtificalParticle ck only_soft manager gpars ptcl_local adr_real_start adr_real_end
       n_group adr_first k sys =
     (let s1 =
            fold (\<lambda>kj s.
                    let kj_start = adr_first ! kj;
                        kj_cm = kj_start + offset_cm gpars
                    in fold (\<lambda>kk s. if kk = k then s
                                      else s[k := calcAccPotShortWithLinearCutoff ck only_soft manager
                                                    (s ! k) (s ! kk)])
                         [kj_start + offset_orb gpars..<kj_cm] s)
              [0..<n_group] sys
      in fold (\<lambda>kj s. s[k := calcAccPotShortWithLinearCutoff ck only_soft manager
                                (s ! k) (ptcl_local ! kj)])
           [adr_real_start..<adr_real_end] s1)"

definition correctArtificalGroup ::
  "ChangeOverKernel \<Rightarrow> bool \<Rightarrow> HardManager \<Rightarrow> GroupPars \<Rightarrow> Ptcl list \<Rightarrow> nat \<Rightarrow> nat \<Rightarrow> nat
     \<Rightarrow> nat list \<Rightarrow> nat \<Rightarrow> Ptcl list \<Rightarrow> Ptcl list" where
  "correctArtificalGroup ck only_soft manager gpars ptcl_local adr_real_start adr_real_end
       n_group adr_first j sys =
     (let j_start = adr_first ! j;
          j_cm = j_start + offset_cm gpars
      in fold (correctArtificalParticle ck only_soft manager gpars ptcl_local adr_real_start
                 adr_real_end n_group adr_first)
           [j_start..<Suc j_cm] sys)"

definition correctForceWithCutoffArtificalOneGroup ::
  "ChangeOverKernel \<Rightarrow> bool \<Rightarrow> HardManager \<Rightarrow> GroupPars \<Rightarrow> Ptcl list \<Rightarrow> nat \<Rightarrow> nat \<Rightarrow> nat
     \<Rightarrow> nat list \<Rightarrow> nat \<Rightarrow> Ptcl list \<Rightarrow> Ptcl list" where
  "correctForceWithCutoffArtificalOneGroup ck only_soft manager gpars ptcl_local adr_real_start
       adr_real_end n_group adr_first j sys =
     correctCmOfGroup gpars (adr_first ! j)
       (correctArtificalGroup ck only_soft manager gpars ptcl_local adr_real_start adr_real_end
          n_group adr_first j sys)"

definition correctForceWithCutoffArtificalOneClusterImp ::
  "ChangeOverKernel \<Rightarrow> bool \<Rightarrow> HardManager \<Rightarrow> GroupPars \<Rightarrow> Ptcl list \<Rightarrow> nat \<Rightarrow> nat \<Rightarrow> nat
     \<Rightarrow> nat list \<Rightarrow> Ptcl list \<Rightarrow> Ptcl list" where
  "correctForceWithCutoffArtificalOneClusterImp ck only_soft manager gpars ptcl_local
       adr_real_start adr_real_end n_group adr_first sys =
     fold (correctForceWithCutoffArtificalOneGroup ck only_soft manager gpars ptcl_local
             adr_real_start adr_real_end n_group adr_first)
       [0..<n_group] sys"

text \<open>
  \<^verbatim>\<open>correctForceWithCutoffClusterImp\<close>: the body of the loop over the real particles
  \<open>j\<close> of a cluster, the body of the loop over the clusters \<open>i\<close>, and the loop.
\<close>

definition correctRealParticle ::
  "ChangeOverKernel \<Rightarrow> bool \<Rightarrow> HardManager \<Rightarrow> GroupPars \<Rightarrow> Ptcl list \<Rightarrow> nat \<Rightarrow> nat \<Rightarrow> nat
     \<Rightarrow> nat list \<Rightarrow> nat \<Rightarrow> Ptcl list \<Rightarrow> Ptcl list" where
  "correctRealParticle ck only_soft manager gpars ptcl_local adr_real_start adr_real_end
       n_group adr_first j sys =
     (let adr = nat (adr_org (ptcl_local ! j));
          s0 = (if status (sys ! adr) = 0
                then sys[adr := (sys ! adr)
                       \<lparr>pot_tot := pot_tot (sys ! adr) + mass (sys ! adr) / r_out_base manager\<rparr>]
                else sys);
          s1 = fold (\<lambda>k s. if k = j then s
                            else s[adr := calcAccPotShortWithLinearCutoff ck only_soft manager
                                            (s ! adr) (ptcl_local ! k)])
                 [adr_real_start..<adr_real_end] s0
      in fold (\<lambda>k s.
                 let k_start = adr_first ! k;
                     k_cm = k_start + offset_cm gpars
                 in fold (\<lambda>ki s. s[adr := calcAccPotShortWithLinearCutoff ck only_soft manager
                                            (s ! adr) (s ! ki)])
                      [k_start + offset_orb gpars..<k_cm] s)
           [0..<n_group] s1)"

definition correctForceWithCutoffCluster ::
  "ChangeOverKernel \<Rightarrow> bool \<Rightarrow> HardManager \<Rightarrow> GroupPars \<Rightarrow> SystemHard \<Rightarrow> nat \<Rightarrow> Ptcl list
     \<Rightarrow> Ptcl list" where
  "correctForceWithCutoffCluster ck only_soft manager gpars hard i sys =
     (let adr_real_start = n_ptcl_in_cluster_disp hard ! i;
          adr_real_end = n_ptcl_in_cluster_disp hard ! (i + 1);
          n_group = n_group_in_cluster hard ! i;
          adr_first_ptcl_arti =
            drop (n_group_in_cluster_offset hard ! i) (adr_first_ptcl_arti_in_cluster hard);
          s1 = correctForceWithCutoffArtificalOneClusterImp ck only_soft manager gpars
                 (ptcl_hard hard) adr_real_start adr_real_end n_group adr_first_ptcl_arti sys
      in fold (correctRealParticle ck only_soft manager gpars (ptcl_hard hard) adr_real_start
                 adr_real_end n_group adr_first_ptcl_arti)
           [adr_real_start..<adr_real_end] s1)"

definition correctForceWithCutoffClusterImp ::
  "ChangeOverKernel \<Rightarrow> bool \<Rightarrow> HardManager \<Rightarrow> GroupPars \<Rightarrow> SystemHard \<Rightarrow> Ptcl list \<Rightarrow> Ptcl list" where
  "correctForceWithCutoffClusterImp ck only_soft manager gpars hard sys =
     fold (correctForceWithCutoffCluster ck only_soft manager gpars hard)
       [0..<length (n_ptcl_in_cluster hard)] sys"

text \<open>
  \<^verbatim>\<open>correctForceWithCutoffTreeNeighborAndClusterImp\<close>: the artificial particles are
  corrected from the cluster, the local real particles and the particles of the
  sending list with the neighbours the tree gives.
\<close>

definition correctTreeNeighborAt ::
  "ChangeOverKernel \<Rightarrow> bool \<Rightarrow> HardManager \<Rightarrow> (Ptcl \<Rightarrow> Ptcl list) \<Rightarrow> nat \<Rightarrow> Ptcl list \<Rightarrow> Ptcl list" where
  "correctTreeNeighborAt ck only_soft manager tree adr sys =
     sys[adr := correctForceWithCutoffTreeNeighborOneParticleImp ck only_soft manager tree (sys ! adr)]"

definition correctLocalTreeNeighbor ::
  "ChangeOverKernel \<Rightarrow> bool \<Rightarrow> HardManager \<Rightarrow> (Ptcl \<Rightarrow> Ptcl list) \<Rightarrow> Ptcl list \<Rightarrow> nat \<Rightarrow> Ptcl list
     \<Rightarrow> Ptcl list" where
  "correctLocalTreeNeighbor ck only_soft manager tree ptcl_local j sys =
     (let adr = adr_org (ptcl_local ! j)
      in if adr \<ge> 0 then correctTreeNeighborAt ck only_soft manager tree (nat adr) sys else sys)"

definition correctForceWithCutoffTreeNeighborAndClusterImp ::
  "ChangeOverKernel \<Rightarrow> bool \<Rightarrow> HardManager \<Rightarrow> GroupPars \<Rightarrow> (Ptcl \<Rightarrow> Ptcl list) \<Rightarrow> SystemHard
     \<Rightarrow> nat list \<Rightarrow> Ptcl list \<Rightarrow> Ptcl list" where
  "correctForceWithCutoffTreeNeighborAndClusterImp ck only_soft manager gpars tree hard adr_send sys =
     (let s1 =
            fold (\<lambda>i s.
                    let adr_real_start = n_ptcl_in_cluster_disp hard ! i;
                        adr_real_end = n_ptcl_in_cluster_disp hard ! (i + 1);
                        n_group = n_group_in_cluster hard ! i;
                        adr_first_ptcl_arti =
                          drop (n_group_in_cluster_offset hard ! i) (adr_first_ptcl_arti_in_cluster hard);
                        s2 = correctForceWithCutoffArtificalOneClusterImp ck only_soft manager gpars
                               (ptcl_hard hard) adr_real_start adr_real_end n_group
                               adr_first_ptcl_arti s
                    in fold (correctLocalTreeNeighbor ck only_soft manager tree (ptcl_hard hard))
                         [adr_real_start..<adr_real_end] s2)
              [0..<length (n_ptcl_in_cluster hard)] sys
      in fold (correctTreeNeighborAt ck only_soft manager tree) adr_send s1)"

text \<open>
  \<^verbatim>\<open>correctForceWithCutoffTreeNeighborImp\<close>, both overloads. The last loop visits the
  blocks of artificial particles from \<^verbatim>\<open>_adr_ptcl_artifical_start\<close> in steps of
  \<^verbatim>\<open>n_ptcl_artifical\<close>; with a block size of 0 it would not end, which is the value
  \<open>None\<close>. \<^verbatim>\<open>_sys.getNumberOfParticleLocal()\<close> is the length of the store.
\<close>

function correctCmOfBlocks :: "GroupPars \<Rightarrow> nat \<Rightarrow> nat \<Rightarrow> Ptcl list \<Rightarrow> Ptcl list option" where
  "correctCmOfBlocks gpars i n_tot sys =
     (if i < n_tot then
        (if n_ptcl_artifical gpars = 0 then None
         else correctCmOfBlocks gpars (i + n_ptcl_artifical gpars) n_tot (correctCmOfGroup gpars i sys))
      else Some sys)"
  by pat_completeness auto
termination
  by (relation "measure (\<lambda>(gpars, i, n_tot, sys). n_tot - i)") auto

declare correctCmOfBlocks.simps [simp del]

definition correctForceWithCutoffTreeNeighborImp ::
  "ChangeOverKernel \<Rightarrow> bool \<Rightarrow> HardManager \<Rightarrow> GroupPars \<Rightarrow> (Ptcl \<Rightarrow> Ptcl list) \<Rightarrow> Ptcl list \<Rightarrow> nat
     \<Rightarrow> nat \<Rightarrow> Ptcl list \<Rightarrow> Ptcl list option" where
  "correctForceWithCutoffTreeNeighborImp ck only_soft manager gpars tree ptcl_local n_ptcl
       adr_ptcl_artifical_start sys =
     (let s1 = fold (correctLocalTreeNeighbor ck only_soft manager tree ptcl_local) [0..<n_ptcl] sys;
          n_tot = length s1;
          s2 = fold (correctTreeNeighborAt ck only_soft manager tree)
                 [adr_ptcl_artifical_start..<n_tot] s1
      in correctCmOfBlocks gpars adr_ptcl_artifical_start n_tot s2)"







section \<open>The cluster builder: findGroupsAndCreateArtificalParticlesImpl\<close>

text \<open>
  What \<^verbatim>\<open>GroupPars::getGroupIndex\<close> decodes from the block of artificial particles of a
  group: the number of members, the index of the cluster and the index of the group
  in its cluster. The decoding is a parameter of the model, a function of the array of
  artificial particles and of the index of the block's first particle.
\<close>

record GroupIndex =
  n_members :: nat
  i_cluster :: nat
  i_group :: int

text \<open>
  What the builder does to a group member, in the store and in the local buffer (the
  source writes the same statements for both): the status becomes the negative address
  of the centre-of-mass particle; if the inner changeover radius differs from that of
  the centre of mass, the ratio is staged in \<^verbatim>\<open>r_scale_next\<close> and the search radius is
  raised to that of the centre of mass; the mass is copied to \<^verbatim>\<open>mass_bk\<close> and set to 0.
  The checks under \<^verbatim>\<open>HARD_DEBUG\<close> are not part of the model.
\<close>

definition setMember :: "int \<Rightarrow> real \<Rightarrow> ChangeOver \<Rightarrow> Ptcl \<Rightarrow> Ptcl" where
  "setMember adr_cm rsearch_cm changeover_cm p =
     (let p1 = p\<lparr>status := - real_of_int adr_cm\<rparr>;
          p2 = (if r_in (changeover p1) \<noteq> r_in changeover_cm
                then p1\<lparr>changeover := (changeover p1)
                           \<lparr>r_scale_next := r_in changeover_cm / r_in (changeover p1)\<rparr>,
                        r_search := max (r_search p1) rsearch_cm\<rparr>
                else p1);
          p3 = p2\<lparr>mass_bk := mass p2\<rparr>
      in p3\<lparr>mass := 0\<rparr>)"

text \<open>
  The data the second parallel loop of the builder works on: the store, the local
  buffer, the count of remote members, the list of clusters with a staged radius of
  the thread, the addresses of the first artificial particles, and the loop's
  variables \<^verbatim>\<open>changeover_update_flag\<close>, \<^verbatim>\<open>group_offset\<close> and \<^verbatim>\<open>j_group_recored\<close>.
\<close>

record Builder =
  b_sys :: "Ptcl list"
  b_local :: "Ptcl list"
  b_remote :: nat
  b_update :: "nat list"
  b_adr_first :: "nat list"
  b_flag :: bool
  b_group_offset :: nat
  b_j_group_recored :: int

text \<open>The body of the loop over the members \<open>k\<close> of a group; \<open>kl\<close> is the member's index.\<close>

definition memberStep :: "int \<Rightarrow> real \<Rightarrow> ChangeOver \<Rightarrow> nat \<Rightarrow> Builder \<Rightarrow> Builder" where
  "memberStep adr_cm rsearch_cm changeover_cm kl b =
     (let ptcl_k = adr_org (b_local b ! kl);
          b1 = (if ptcl_k \<ge> 0
                then b\<lparr>b_sys := (b_sys b)[nat ptcl_k :=
                          setMember adr_cm rsearch_cm changeover_cm (b_sys b ! nat ptcl_k)]\<rparr>
                else b\<lparr>b_remote := b_remote b + 1\<rparr>);
          b2 = (if r_in (changeover (b_local b1 ! kl)) \<noteq> r_in changeover_cm
                then b1\<lparr>b_flag := True\<rparr> else b1)
      in b2\<lparr>b_local := (b_local b2)[kl :=
               setMember adr_cm rsearch_cm changeover_cm (b_local b2 ! kl)]\<rparr>)"

definition updateMembers :: "int \<Rightarrow> real \<Rightarrow> ChangeOver \<Rightarrow> nat \<Rightarrow> nat \<Rightarrow> Builder \<Rightarrow> Builder" where
  "updateMembers adr_cm rsearch_cm changeover_cm first n b =
     fold (\<lambda>k. memberStep adr_cm rsearch_cm changeover_cm (first + k)) [0..<n] b"

text \<open>
  The body of the loop over the blocks of artificial particles of a thread;
  \<open>ptcl_artifical\<close> is the thread's array, with the addresses already assigned, and \<open>j\<close>
  the index of the block's first particle.
\<close>

definition groupStep ::
  "GroupPars \<Rightarrow> (Ptcl list \<Rightarrow> nat \<Rightarrow> GroupIndex) \<Rightarrow> SystemHard \<Rightarrow> Ptcl list \<Rightarrow> nat \<Rightarrow> Builder
     \<Rightarrow> abort + Builder" where
  "groupStep gpars getGroupIndex hard ptcl_artifical j b =
     (let gpar = getGroupIndex ptcl_artifical j;
          j_cm = offset_cm gpars + j;
          j_group = i_group gpar;
          rsearch_cm = r_search (ptcl_artifical ! j_cm);
          changeover_cm = changeover (ptcl_artifical ! j_cm)
      in if j_group \<noteq> b_j_group_recored b + 1 then Inl AssertFailed
         else
           let b1 = b\<lparr>b_j_group_recored := j_group, b_flag := False\<rparr>;
               b2 = updateMembers (adr_org (ptcl_artifical ! j_cm)) rsearch_cm changeover_cm
                      (n_ptcl_in_cluster_disp hard ! i_cluster gpar + b_group_offset b1)
                      (n_members gpar) b1;
               b3 = (if b_flag b2 then b2\<lparr>b_update := b_update b2 @ [i_cluster gpar]\<rparr> else b2);
               b4 = (if j_group = int (n_group_in_cluster hard ! i_cluster gpar) - 1
                     then b3\<lparr>b_group_offset := 0, b_j_group_recored := - 1\<rparr>
                     else b3\<lparr>b_group_offset := b_group_offset b3 + n_members gpar\<rparr>)
           in if j_group > int (n_group_in_cluster hard ! i_cluster gpar) then Inl AssertFailed
              else Inr (b4\<lparr>b_adr_first := (b_adr_first b4)
                          [n_group_in_cluster_offset hard ! i_cluster gpar + nat j_group :=
                             nat (adr_org (ptcl_artifical ! j))]\<rparr>))"

fun groupLoop ::
  "GroupPars \<Rightarrow> (Ptcl list \<Rightarrow> nat \<Rightarrow> GroupIndex) \<Rightarrow> SystemHard \<Rightarrow> Ptcl list \<Rightarrow> nat list \<Rightarrow> Builder
     \<Rightarrow> abort + Builder" where
  "groupLoop gpars getGroupIndex hard ptcl_artifical [] b = Inr b"
| "groupLoop gpars getGroupIndex hard ptcl_artifical (j # js) b =
     (case groupStep gpars getGroupIndex hard ptcl_artifical j b of
        Inl a \<Rightarrow> Inl a
      | Inr b1 \<Rightarrow> groupLoop gpars getGroupIndex hard ptcl_artifical js b1)"

text \<open>
  The work of one thread in the second parallel loop. The particles of the thread's
  array get their addresses from \<open>thread_offset\<close> on and are written to the store,
  converted by the constructor of the store's particle type (the parameter \<open>Tptcl\<close>,
  the rank left out). Then the blocks are visited in steps of \<^verbatim>\<open>n_ptcl_artifical\<close>: a
  block size of 0 stops the process in the \<^verbatim>\<open>assert\<close> on the remainder. It returns the
  thread's list of clusters with a staged radius beside the shared data.
\<close>

definition threadStep ::
  "GroupPars \<Rightarrow> (Ptcl list \<Rightarrow> nat \<Rightarrow> GroupIndex) \<Rightarrow> (Ptcl \<Rightarrow> int \<Rightarrow> Ptcl) \<Rightarrow> SystemHard
     \<Rightarrow> nat \<Rightarrow> Ptcl list \<Rightarrow> Builder \<Rightarrow> abort + Builder" where
  "threadStep gpars getGroupIndex Tptcl hard thread_offset ptcl_artifical b =
     (let n_artifical_per_group = n_ptcl_artifical gpars
      in if n_artifical_per_group = 0 then Inl DivisionByZero
         else if length ptcl_artifical mod n_artifical_per_group \<noteq> 0 then Inl AssertFailed
         else
           let pa = map (\<lambda>j. (ptcl_artifical ! j)\<lparr>adr_org := int (j + thread_offset)\<rparr>)
                      [0..<length ptcl_artifical];
               sys1 = fold (\<lambda>j s. s[j + thread_offset := Tptcl (pa ! j) (int (j + thread_offset))])
                        [0..<length pa] (b_sys b);
               b1 = b\<lparr>b_sys := sys1, b_update := [], b_group_offset := 0, b_j_group_recored := - 1\<rparr>
           in groupLoop gpars getGroupIndex hard pa
                (map (\<lambda>g. g * n_artifical_per_group) [0..<length pa div n_artifical_per_group]) b1)"

text \<open>
  The loop over the threads, run in thread order; it collects the threads' lists of
  clusters. \<open>arts\<close> are the arrays of artificial particles of the threads and \<open>offset\<close>
  the address of the first particle of the current thread.
\<close>

fun threadLoop ::
  "GroupPars \<Rightarrow> (Ptcl list \<Rightarrow> nat \<Rightarrow> GroupIndex) \<Rightarrow> (Ptcl \<Rightarrow> int \<Rightarrow> Ptcl) \<Rightarrow> SystemHard
     \<Rightarrow> nat \<Rightarrow> Ptcl list list \<Rightarrow> nat list \<Rightarrow> Builder \<Rightarrow> abort + (nat list \<times> Builder)" where
  "threadLoop gpars getGroupIndex Tptcl hard offset [] updates b = Inr (updates, b)"
| "threadLoop gpars getGroupIndex Tptcl hard offset (pa # arts) updates b =
     (case threadStep gpars getGroupIndex Tptcl hard offset pa b of
        Inl a \<Rightarrow> Inl a
      | Inr b1 \<Rightarrow> threadLoop gpars getGroupIndex Tptcl hard (offset + length pa) arts
                   (updates @ b_update b1) b1)"

text \<open>
  The first parallel loop resets the status of every particle of every cluster, in the
  buffer and, for a non-negative address, in the store; then the group search, which is
  not part of the sources at hand, reorders the cluster and generates the artificial
  particles. The search is the parameter \<open>searchGroups\<close>: from the buffer after the reset
  it gives the buffer, the arrays of artificial particles of the threads and the number
  of groups of every cluster.
\<close>

definition resetStatus :: "Ptcl list \<times> Ptcl list \<Rightarrow> nat \<Rightarrow> Ptcl list \<times> Ptcl list" where
  "resetStatus ls j =
     (case ls of (ptcl_local, sys) \<Rightarrow>
        let ptcl_local1 = ptcl_local[j := (ptcl_local ! j)\<lparr>status := 0\<rparr>];
            adr = adr_org (ptcl_local1 ! j)
        in (ptcl_local1,
            if adr \<ge> 0 then sys[nat adr := (sys ! nat adr)\<lparr>status := 0\<rparr>] else sys))"

fun prefixSums :: "nat list \<Rightarrow> nat \<Rightarrow> nat list" where
  "prefixSums [] s = [s]"
| "prefixSums (n # ns) s = s # prefixSums ns (s + n)"

definition findGroupsAndCreateArtificalParticlesImpl ::
  "GroupPars \<Rightarrow> (Ptcl list \<Rightarrow> nat \<Rightarrow> GroupIndex) \<Rightarrow> (Ptcl \<Rightarrow> int \<Rightarrow> Ptcl)
     \<Rightarrow> (Ptcl list \<Rightarrow> Ptcl list \<times> Ptcl list list \<times> nat list)
     \<Rightarrow> SystemHard \<Rightarrow> Ptcl list \<Rightarrow> abort + (SystemHard \<times> Ptcl list)" where
  "findGroupsAndCreateArtificalParticlesImpl gpars getGroupIndex Tptcl searchGroups hard sys =
     (let n_cluster = length (n_ptcl_in_cluster hard);
          reset = fold (\<lambda>i ls. fold (\<lambda>j ls. resetStatus ls (n_ptcl_in_cluster_disp hard ! i + j))
                                  [0..<n_ptcl_in_cluster hard ! i] ls)
                    [0..<n_cluster] (ptcl_hard hard, sys);
          found = searchGroups (fst reset);
          ptcl_local = fst found;
          ptcl_artifical = fst (snd found);
          hard1 = hard\<lparr>ptcl_hard := ptcl_local,
                       n_group_in_cluster := snd (snd found),
                       n_group_in_cluster_offset := prefixSums (snd (snd found)) 0,
                       n_group_member_remote := 0\<rparr>;
          n_local = length (snd reset);
          sys1 = snd reset @ replicate (length (concat ptcl_artifical)) (Tptcl (hd (concat ptcl_artifical)) 0);
          b = \<lparr>b_sys = sys1, b_local = ptcl_local, b_remote = 0, b_update = [],
               b_adr_first = replicate (last (n_group_in_cluster_offset hard1)) 0,
               b_flag = False, b_group_offset = 0, b_j_group_recored = - 1\<rparr>
      in case threadLoop gpars getGroupIndex Tptcl hard1 n_local ptcl_artifical [] b of
           Inl a \<Rightarrow> Inl a
         | Inr (updates, b1) \<Rightarrow>
             Inr (hard1\<lparr>ptcl_hard := b_local b1,
                         adr_first_ptcl_arti_in_cluster := b_adr_first b1,
                         i_cluster_changeover_update := remdups_adj (sort updates),
                         n_group_member_remote := b_remote b1\<rparr>,
                  b_sys b1))"


section \<open>The correction for a changed changeover radius\<close>

text \<open>
  \<^verbatim>\<open>calcAccChangeOverCorrection\<close> for a source particle and for a tree neighbour: the
  acceleration of \<open>i\<close> is corrected by the difference of the weights with the staged and
  with the committed radii.
\<close>

definition calcAccChangeOverCorrection :: "ChangeOverKernel \<Rightarrow> HardManager \<Rightarrow> Ptcl \<Rightarrow> Ptcl \<Rightarrow> Ptcl" where
  "calcAccChangeOverCorrection ck manager p_i p_j =
     (let dr = vsub (pos p_i) (pos p_j);
          dr2 = vdot dr dr;
          dr2_eps = dr2 + eps_sq manager;
          drinv = 1 / sqrt dr2_eps;
          movr = mass p_j * drinv;
          drinv2 = drinv * drinv;
          movr3 = movr * drinv2;
          dr_eps = drinv * dr2_eps;
          kold = 1 - calcAcc0WTwo ck (changeover p_i) (changeover p_j) dr_eps;
          chinew = setR (r_in (changeover p_i) * r_scale_next (changeover p_i))
                        (r_out (changeover p_i) * r_scale_next (changeover p_i));
          chjnew = setR (r_in (changeover p_j) * r_scale_next (changeover p_j))
                        (r_out (changeover p_j) * r_scale_next (changeover p_j));
          knew = 1 - calcAcc0WTwo ck chinew chjnew dr_eps
      in p_i\<lparr>acc := vsub (acc p_i) (vscale (movr3 * (knew - kold)) dr)\<rparr>)"

definition calcAccChangeOverCorrectionEPJ :: "ChangeOverKernel \<Rightarrow> HardManager \<Rightarrow> Ptcl \<Rightarrow> Ptcl \<Rightarrow> Ptcl" where
  "calcAccChangeOverCorrectionEPJ ck manager p_i p_j =
     (let dr = vsub (pos p_i) (pos p_j);
          dr2 = vdot dr dr;
          dr2_eps = dr2 + eps_sq manager;
          drinv = 1 / sqrt dr2_eps;
          movr = mass p_j * drinv;
          drinv2 = drinv * drinv;
          movr3 = movr * drinv2;
          dr_eps = drinv * dr2_eps;
          chjold = setR (r_in (changeover p_j)) (r_out (changeover p_j));
          kold = 1 - calcAcc0WTwo ck (changeover p_i) chjold dr_eps;
          chinew = setR (r_in (changeover p_i) * r_scale_next (changeover p_i))
                        (r_out (changeover p_i) * r_scale_next (changeover p_i));
          chjnew = setR (r_in (changeover p_j) * r_scale_next (changeover p_j))
                        (r_out (changeover p_j) * r_scale_next (changeover p_j));
          knew = 1 - calcAcc0WTwo ck chinew chjnew dr_eps
      in p_i\<lparr>acc := vsub (acc p_i) (vscale (movr3 * (knew - kold)) dr)\<rparr>)"

text \<open>
  \<^verbatim>\<open>correctForceForChangeOverUpdateOMP\<close>. The body of the loop over the orbital and
  centre-of-mass particles \<open>k\<close> of a group of a flagged cluster.
\<close>

definition correctArtificalChangeOver ::
  "ChangeOverKernel \<Rightarrow> HardManager \<Rightarrow> GroupPars \<Rightarrow> Ptcl list \<Rightarrow> nat \<Rightarrow> nat \<Rightarrow> nat \<Rightarrow> nat list
     \<Rightarrow> nat \<Rightarrow> Ptcl list \<Rightarrow> Ptcl list" where
  "correctArtificalChangeOver ck manager gpars ptcl_local adr_real_start adr_real_end n_group
       adr_first k sys =
     (let changek = (r_scale_next (changeover (sys ! k)) \<noteq> 1);
          s1 =
            fold (\<lambda>kj s.
                    let kj_start_orb = adr_first ! kj + offset_orb gpars;
                        kj_cm = adr_first ! kj + offset_cm gpars
                    in if r_scale_next (changeover (s ! kj_start_orb)) \<noteq> 1 \<or> changek
                       then fold (\<lambda>kk s. if kk = k then s
                                         else s[k := calcAccChangeOverCorrection ck manager
                                                       (s ! k) (s ! kk)])
                              [kj_start_orb..<kj_cm] s
                       else s)
              [0..<n_group] sys
      in fold (\<lambda>kj s. if r_scale_next (changeover (ptcl_local ! kj)) \<noteq> 1 \<or> changek
                        then s[k := calcAccChangeOverCorrection ck manager (s ! k) (ptcl_local ! kj)]
                        else s)
           [adr_real_start..<adr_real_end] s1)"

text \<open>
  The correction of one particle of the store with the neighbours of the tree, as the
  loop over the real particles and the loop over the sending list do it.
\<close>

definition correctNeighborChangeOver ::
  "ChangeOverKernel \<Rightarrow> HardManager \<Rightarrow> (Ptcl \<Rightarrow> Ptcl list) \<Rightarrow> Ptcl \<Rightarrow> Ptcl" where
  "correctNeighborChangeOver ck manager tree p =
     (let change_i = (r_scale_next (changeover p) \<noteq> 1);
          ptcl_nb = tree p
      in fold (\<lambda>nb q. if ptcl_id nb = ptcl_id q then q
                       else if r_scale_next (changeover nb) \<noteq> 1 \<or> change_i
                            then calcAccChangeOverCorrectionEPJ ck manager q nb
                            else q)
           ptcl_nb p)"

text \<open>
  The body of the loop over the real particles \<open>j\<close> of a flagged cluster: the particle
  of the store is corrected if its address is not negative, then the staged radius is
  committed in the buffer and in the store. The state is the buffer and the store.
\<close>

definition correctRealChangeOver ::
  "ChangeOverKernel \<Rightarrow> HardManager \<Rightarrow> (Ptcl \<Rightarrow> Ptcl list) \<Rightarrow> nat \<Rightarrow> Ptcl list \<times> Ptcl list
     \<Rightarrow> Ptcl list \<times> Ptcl list" where
  "correctRealChangeOver ck manager tree j st =
     (case st of (ptcl_local, sys) \<Rightarrow>
        let adr = adr_org (ptcl_local ! j);
            sys1 = (if adr \<ge> 0
                    then sys[nat adr := correctNeighborChangeOver ck manager tree (sys ! nat adr)]
                    else sys);
            ptcl_local1 = ptcl_local[j := (ptcl_local ! j)
                            \<lparr>changeover := updateWithRScale (changeover (ptcl_local ! j))\<rparr>];
            sys2 = (if adr \<ge> 0
                    then sys1[nat adr := (sys1 ! nat adr)
                            \<lparr>changeover := updateWithRScale (changeover (sys1 ! nat adr))\<rparr>]
                    else sys1)
        in (ptcl_local1, sys2))"

text \<open>The body of the loop over the flagged clusters.\<close>

definition correctClusterChangeOver ::
  "ChangeOverKernel \<Rightarrow> HardManager \<Rightarrow> GroupPars \<Rightarrow> (Ptcl \<Rightarrow> Ptcl list) \<Rightarrow> SystemHard \<Rightarrow> nat
     \<Rightarrow> Ptcl list \<times> Ptcl list \<Rightarrow> Ptcl list \<times> Ptcl list" where
  "correctClusterChangeOver ck manager gpars tree hard i_cl st =
     (case st of (ptcl_local, sys) \<Rightarrow>
        let adr_real_start = n_ptcl_in_cluster_disp hard ! i_cl;
            adr_real_end = n_ptcl_in_cluster_disp hard ! (i_cl + 1);
            n_group = n_group_in_cluster hard ! i_cl;
            adr_first_ptcl_arti =
              drop (n_group_in_cluster_offset hard ! i_cl) (adr_first_ptcl_arti_in_cluster hard);
            sys1 =
              fold (\<lambda>j s.
                      let j_start = adr_first_ptcl_arti ! j;
                          j_cm = j_start + offset_cm gpars
                      in fold (correctArtificalChangeOver ck manager gpars ptcl_local adr_real_start
                                 adr_real_end n_group adr_first_ptcl_arti)
                           [j_start + offset_orb gpars..<Suc j_cm] s)
                [0..<n_group] sys
        in fold (correctRealChangeOver ck manager tree) [adr_real_start..<adr_real_end]
             (ptcl_local, sys1))"

text \<open>The body of the loop over the sending list.\<close>

definition correctSendChangeOver ::
  "ChangeOverKernel \<Rightarrow> HardManager \<Rightarrow> (Ptcl \<Rightarrow> Ptcl list) \<Rightarrow> nat \<Rightarrow> Ptcl list \<Rightarrow> Ptcl list" where
  "correctSendChangeOver ck manager tree adr sys =
     (let p = correctNeighborChangeOver ck manager tree (sys ! adr)
      in sys[adr := p\<lparr>changeover := updateWithRScale (changeover p)\<rparr>])"

text \<open>
  The function. \<open>hard\<close> holds the index arrays of the object, which the function only
  reads; the state is the buffer \<^verbatim>\<open>ptcl_hard_\<close> of the object and the store
  \<^verbatim>\<open>_sys\<close>, both of which it writes. \<open>tree\<close> gives the neighbour list of a particle
  (\<^verbatim>\<open>getNeighborListOneParticle\<close>): copies kept by the tree, which the function does not
  write.
\<close>

definition correctForceForChangeOverUpdateOMP ::
  "ChangeOverKernel \<Rightarrow> HardManager \<Rightarrow> GroupPars \<Rightarrow> (Ptcl \<Rightarrow> Ptcl list) \<Rightarrow> SystemHard \<Rightarrow> nat list
     \<Rightarrow> Ptcl list \<times> Ptcl list \<Rightarrow> Ptcl list \<times> Ptcl list" where
  "correctForceForChangeOverUpdateOMP ck manager gpars tree hard adr_send st =
     (let st1 = fold (correctClusterChangeOver ck manager gpars tree hard)
                  (i_cluster_changeover_update hard) st
      in (fst st1, fold (correctSendChangeOver ck manager tree) adr_send (snd st1)))"

section \<open>The particles that the correction for a changed radius reads\<close>

text \<open>
  The slots of the buffer that hold the real particles of the flagged clusters, and the
  addresses in the store of the orbital and centre-of-mass particles of the groups of
  the flagged clusters: the ranges of the loops of
  \<^verbatim>\<open>correctForceForChangeOverUpdateOMP\<close>.
\<close>

definition real_slots :: "SystemHard \<Rightarrow> nat list" where
  "real_slots hard =
     concat (map (\<lambda>i_cl. [n_ptcl_in_cluster_disp hard ! i_cl..<
                             n_ptcl_in_cluster_disp hard ! (i_cl + 1)])
               (i_cluster_changeover_update hard))"

definition artifical_addresses :: "GroupPars \<Rightarrow> SystemHard \<Rightarrow> nat list" where
  "artifical_addresses gpars hard =
     concat (map (\<lambda>i_cl.
                    concat (map (\<lambda>j. [drop (n_group_in_cluster_offset hard ! i_cl)
                                          (adr_first_ptcl_arti_in_cluster hard) ! j
                                        + offset_orb gpars..<
                                        Suc (drop (n_group_in_cluster_offset hard ! i_cl)
                                               (adr_first_ptcl_arti_in_cluster hard) ! j
                                             + offset_cm gpars)])
                              [0..<n_group_in_cluster hard ! i_cl]))
               (i_cluster_changeover_update hard))"

text \<open>
  The relation between an array before and after a part of the function, used in the
  proofs: the length and the addresses \<^verbatim>\<open>adr_org\<close> are kept, and a multiplier
  \<^verbatim>\<open>r_scale_next\<close> that is 1 stays 1.
\<close>

definition multiplier_kept :: "Ptcl list \<Rightarrow> Ptcl list \<Rightarrow> bool" where
  "multiplier_kept xs ys \<longleftrightarrow>
     length ys = length xs
     \<and> (\<forall>a. adr_org (ys ! a) = adr_org (xs ! a)
            \<and> (r_scale_next (changeover (xs ! a)) = 1
                 \<longrightarrow> r_scale_next (changeover (ys ! a)) = 1))"

section \<open>Concrete inputs\<close>

text \<open>
  An instance of the kernel parameter, to evaluate the model at concrete inputs: the
  weight of the changeover with the larger outer radius, 1 inside its inner radius,
  0 outside its outer radius and linear in between.
\<close>

definition ramp :: "ChangeOver \<Rightarrow> real \<Rightarrow> real" where
  "ramp ch r = (if r \<le> r_in ch then 1 else if r_out ch \<le> r then 0
                else (r_out ch - r) / (r_out ch - r_in ch))"

definition ramp_kernel :: ChangeOverKernel where
  "ramp_kernel =
     \<lparr>calcAcc0WTwo = (\<lambda>ch1 ch2 r. if r_out ch1 > r_out ch2 then ramp ch1 r else ramp ch2 r),
      calcPotWTwo = (\<lambda>ch1 ch2 r. if r_out ch1 > r_out ch2 then ramp ch1 r else ramp ch2 r)\<rparr>"

definition rs_example :: "Ptcl \<Rightarrow> real \<Rightarrow> real" where
  "rs_example p dt = max (sqrt (vdot (vel p) (vel p)) * dt + r_out (changeover p)) 1"

definition ptcl_example :: Ptcl where
  "ptcl_example = \<lparr>mass = 1, pos = (1, 2, 3), vel = (3, 0, 4), acc = (0, 0, 0), pot_tot = 0,
     r_search = 1, status = 0, mass_bk = 0, ptcl_id = 7, adr_org = 0,
     changeover = \<lparr>r_in = 1, r_out = 2, r_scale_next = 1\<rparr>\<rparr>"

text \<open>
  A manager with no softening and outer base radius 4, and two particles at distance
  2: a single \<open>single_i\<close>, and a source of mass 8 as a single, as a group member (live
  mass 0, backup mass 8) and as an artificial orbital sample.
\<close>

definition manager_example :: HardManager where
  "manager_example = \<lparr>energy_error_max = 1 / 1000, r_tidal_tensor = 1, r_in_base = 1,
     r_out_base = 4, eps_sq = 0, id_offset = 100, n_split = 2\<rparr>"

definition single_i :: Ptcl where
  "single_i = \<lparr>mass = 1, pos = (2, 0, 0), vel = (0, 0, 0), acc = (0, 0, 0), pot_tot = 0,
     r_search = 5, status = 0, mass_bk = 0, ptcl_id = 1, adr_org = 0,
     changeover = \<lparr>r_in = 1, r_out = 3, r_scale_next = 1\<rparr>\<rparr>"

definition single_j :: Ptcl where
  "single_j = \<lparr>mass = 8, pos = (0, 0, 0), vel = (0, 0, 0), acc = (0, 0, 0), pot_tot = 0,
     r_search = 5, status = 0, mass_bk = 0, ptcl_id = 2, adr_org = 1,
     changeover = \<lparr>r_in = 1, r_out = 3, r_scale_next = 1\<rparr>\<rparr>"

definition member_j :: Ptcl where
  "member_j = single_j\<lparr>mass := 0, status := - 5, mass_bk := 8\<rparr>"

definition orbital_j :: Ptcl where
  "orbital_j = single_j\<lparr>status := 1\<rparr>"

text \<open>
  A layout with two tidal-tensor samples, two orbital samples and the centre of
  mass; a cluster of one group of two members, a cluster of that group and a single,
  and two stand-ins for the integrators: the first reports the energies 1 and
  1 + 1/2000, the second 1 and 2. \<open>build_example\<close> resolves \<^verbatim>\<open>abs\<close> to the overload for
  \<^verbatim>\<open>Float\<close>, \<open>build_int_abs\<close> to \<^verbatim>\<open>int abs(int)\<close>; \<open>manager_tight\<close> has the threshold
  1/1024 and \<open>engines_drift\<close> reports the energy changes 1/512 and 2.
\<close>

definition gpars_example :: GroupPars where
  "gpars_example = \<lparr>n_ptcl_artifical = 5, offset_tt = 0, offset_orb = 2, offset_cm = 4\<rparr>"

definition build_example :: Build where
  "build_example = \<lparr>hard_check_energy = True, assert_checks = True,
     abs_overload = abs_floating\<rparr>"

definition build_int_abs :: Build where
  "build_int_abs = \<lparr>hard_check_energy = True, assert_checks = True, abs_overload = abs_int\<rparr>"

definition manager_tight :: HardManager where
  "manager_tight = manager_example\<lparr>energy_error_max := 1 / 1024\<rparr>"

definition engines_drift :: Engines where
  "engines_drift =
     \<lparr>single_group_path = (\<lambda>manager ptcl_local ptcl_artifical dt.
          Inr (ptcl_local, ptcl_artifical, 1, 1 + 1 / 512)),
      mixed_path = (\<lambda>manager ptcl_local ptcl_artifical dt.
          Inr (ptcl_local, ptcl_artifical, 1, 3))\<rparr>"


definition two_members :: "Ptcl list \<Rightarrow> nat \<Rightarrow> nat" where
  "two_members ptcl_artifical adr = 2"

definition block_example :: "Ptcl list" where
  "block_example = [orbital_j, orbital_j, orbital_j, orbital_j, orbital_j\<lparr>mass_bk := 9\<rparr>]"

text \<open>
  The block of one group in the layout above: two tidal-tensor samples, two orbital
  samples of mass 1 and 3, and the centre-of-mass particle. The tree \<open>self_tree\<close> gives
  each particle itself as its only neighbour.
\<close>

definition arti :: "real \<Rightarrow> F64vec \<Rightarrow> Ptcl" where
  "arti m a = orbital_j\<lparr>mass := m, acc := a\<rparr>"


definition self_tree :: "Ptcl \<Rightarrow> Ptcl list" where
  "self_tree p = [p]"

text \<open>
  A tree that gives every particle the two singles as neighbours, and a group member
  at the place of \<open>single_i\<close>.
\<close>

definition pair_tree :: "Ptcl \<Rightarrow> Ptcl list" where
  "pair_tree p = [single_i, single_j]"









text \<open>
  A flagged cluster on the x axis: two members at 4 and 6 with live mass 0, and the
  block of their group at the addresses 2 to 6 of the store, with orbital samples of
  mass 8 at 0 and 2 and the centre of mass at 1. Every particle has the radii 1 and 3
  and the staged multiplier 2.
\<close>

definition staged :: ChangeOver where
  "staged = \<lparr>r_in = 1, r_out = 3, r_scale_next = 2\<rparr>"

definition on_axis :: "real \<Rightarrow> real \<Rightarrow> real \<Rightarrow> int \<Rightarrow> Ptcl" where
  "on_axis x m st a = \<lparr>mass = m, pos = (x, 0, 0), vel = (0, 0, 0), acc = (0, 0, 0), pot_tot = 0,
     r_search = 5, status = st, mass_bk = 0, ptcl_id = a + 1, adr_org = a, changeover = staged\<rparr>"

definition local_co :: "Ptcl list" where
  "local_co = [on_axis 4 0 (- 6) 0, on_axis 6 0 (- 6) 1]"

definition store_co :: "Ptcl list" where
  "store_co = [on_axis 4 0 (- 6) 0, on_axis 6 0 (- 6) 1, on_axis 1 0 1 2, on_axis 1 0 1 3,
               on_axis 0 8 1 4, on_axis 2 8 1 5, on_axis 1 0 1 6]"

definition hard_co :: SystemHard where
  "hard_co = \<lparr>ptcl_hard = local_co, n_ptcl_in_cluster = [2], n_ptcl_in_cluster_disp = [0, 2],
     n_group_in_cluster = [1], n_group_in_cluster_offset = [0, 1],
     adr_first_ptcl_arti_in_cluster = [2], i_cluster_changeover_update = [0],
     n_group_member_remote = 0\<rparr>"

text \<open>
  The changeover state of \<open>staged\<close> once committed, and the store of the example with
  the staged radii of the three artificial particles committed.
\<close>

definition committed :: ChangeOver where
  "committed = \<lparr>r_in = 2, r_out = 6, r_scale_next = 1\<rparr>"

definition store_settled :: "Ptcl list" where
  "store_settled = [on_axis 4 0 (- 6) 0, on_axis 6 0 (- 6) 1, on_axis 1 0 1 2, on_axis 1 0 1 3,
     (on_axis 0 8 1 4)\<lparr>changeover := committed\<rparr>,
     (on_axis 2 8 1 5)\<lparr>changeover := committed\<rparr>,
     (on_axis 1 0 1 6)\<lparr>changeover := committed\<rparr>]"

section \<open>Loops that update an array element by element\<close>

lemma fold_update_length:
  "length (fold (\<lambda>i ps. ps[i := f (ps ! i)]) is xs) = length xs"
  by (induction "is" arbitrary: xs) auto

lemma fold_update_upt:
  "n \<le> length xs \<Longrightarrow>
   fold (\<lambda>i ps. ps[i := f (ps ! i)]) [0..<n] xs = map f (take n xs) @ drop n xs"
proof (induction n)
  case 0
  then show ?case by simp
next
  case (Suc n)
  then have n: "n < length xs" by simp
  have "fold (\<lambda>i ps. ps[i := f (ps ! i)]) [0..<Suc n] xs =
        (map f (take n xs) @ drop n xs)[n := f ((map f (take n xs) @ drop n xs) ! n)]"
    using Suc by simp
  also have "(map f (take n xs) @ drop n xs) ! n = xs ! n"
    using n by (simp add: nth_append)
  also have "(map f (take n xs) @ drop n xs)[n := f (xs ! n)] =
             map f (take n xs) @ (drop n xs)[0 := f (xs ! n)]"
    using n by (simp add: list_update_append)
  also have "(drop n xs)[0 := f (xs ! n)] = f (xs ! n) # drop (Suc n) xs"
    using n by (simp add: Cons_nth_drop_Suc [symmetric])
  also have "map f (take n xs) @ f (xs ! n) # drop (Suc n) xs =
             map f (take (Suc n) xs) @ drop (Suc n) xs"
    using n by (simp add: take_Suc_conv_app_nth)
  finally show ?case .
qed

lemma fold_update_all:
  "fold (\<lambda>i ps. ps[i := f (ps ! i)]) [0..<length xs] xs = map f xs"
  using fold_update_upt [of "length xs" xs f] by simp

section \<open>The centre-of-mass acceleration of a group\<close>


lemma vadd_commute: "vadd a b = vadd b a"
  by (cases a; cases b) simp

lemma vadd_vzero [simp]: "vadd a vzero = a" "vadd vzero a = a"
  by (cases a; simp add: vzero_def)+










section \<open>The primitive in the quantities of the specification\<close>

lemma sqrt_clamp:
  assumes "0 < d" "0 < ro"
  shows "sqrt (if d > ro * ro then d else ro * ro) = max (sqrt d) ro"
proof (cases "d > ro * ro")
  case True
  then have "sqrt (ro * ro) < sqrt d" by (simp only: real_sqrt_less_iff)
  then have "ro < sqrt d" using assms by simp
  then show ?thesis using True by simp
next
  case False
  then have "sqrt d \<le> sqrt (ro * ro)" by (simp only: real_sqrt_le_iff not_less)
  then have "sqrt d \<le> ro" using assms by simp
  then show ?thesis using False assms by simp
qed

lemma gt_clamp:
  assumes "0 < d" "0 < ro"
  shows "(d > ro * ro) = (sqrt d > ro)"
proof -
  have "(sqrt (ro * ro) < sqrt d) = (ro * ro < d)" by (simp only: real_sqrt_less_iff)
  then show ?thesis using assms by simp
qed

lemma inv_cube:
  assumes "0 < (r::real)"
  shows "m * (1 / r) * (1 / r * (1 / r)) = m / r ^ 3"
  using assms by (simp add: power3_eq_cube)

lemma drinv_dr2:
  assumes "0 < (d::real)"
  shows "1 / sqrt d * d = sqrt d"
  using assms by (simp add: real_div_sqrt)

lemma vec_corr:
  "vsub a (vscale (e * (1 - w) - l) d) =
   vadd a (vsub (vscale (1 - w) (vscale (- e) d)) (vscale (- l) d))"
  by (cases a; cases d) (simp add: algebra_simps)

lemma primitive_acc:
  assumes d: "0 < vdot (vsub (pos p_i) (pos p_j)) (vsub (pos p_i) (pos p_j)) + eps_sq manager"
      and ro: "0 < r_out_base manager"
  shows "acc (calcAccPotShortWithLinearCutoff ck os manager p_i p_j) =
         vadd (acc p_i)
           (vsub (vscale (1 - changeover_weight ck manager p_i p_j)
                    (exact_pairwise_accel manager p_i p_j))
                 (linear_cutoff_term manager p_i p_j))"
proof -
  define dr where "dr = vsub (pos p_i) (pos p_j)"
  define d2 where "d2 = vdot dr dr + eps_sq manager"
  define w where "w = calcAcc0WTwo ck (changeover p_i) (changeover p_j) (sqrt d2)"
  have d2: "0 < d2" using d by (simp add: d2_def dr_def)
  then have r: "0 < sqrt d2" by simp
  have rm: "0 < max (sqrt d2) (r_out_base manager)" using r by (simp add: less_max_iff_disj)
  have lhs: "acc (calcAccPotShortWithLinearCutoff ck os manager p_i p_j) =
        vsub (acc p_i) (vscale (mass p_j / sqrt d2 ^ 3 * (1 - w)
                 - mass p_j / max (sqrt d2) (r_out_base manager) ^ 3) dr)"
    unfolding calcAccPotShortWithLinearCutoff_def Let_def
    by (simp only: Ptcl.simps dr_def [symmetric] d2_def [symmetric] drinv_dr2 [OF d2]
        inv_cube [OF r] inv_cube [OF rm] sqrt_clamp [OF d2 ro] w_def [symmetric]) simp
  show ?thesis
    unfolding lhs changeover_weight_def exact_pairwise_accel_def linear_cutoff_term_def
      softened_separation_def clamped_separation_def dr_def [symmetric] d2_def [symmetric]
      w_def [symmetric]
    by (rule vec_corr)
qed

lemma primitive_EPJ:
  "calcAccPotShortWithLinearCutoffEPJ ck os manager p_i p_j =
   calcAccPotShortWithLinearCutoff ck os manager p_i
     (p_j\<lparr>changeover := setR (r_in (changeover p_j)) (r_out (changeover p_j))\<rparr>)"
  by (simp add: calcAccPotShortWithLinearCutoffEPJ_def calcAccPotShortWithLinearCutoff_def Let_def)

lemma primitive_frame:
  "(calcAccPotShortWithLinearCutoff ck os manager p_i p_j)
     \<lparr>acc := acc p_i, pot_tot := pot_tot p_i\<rparr> = p_i"
  by (simp add: calcAccPotShortWithLinearCutoff_def Let_def)

lemma spec_terms_changeover [simp]:
  "softened_separation manager p_i (p_j\<lparr>changeover := c\<rparr>) = softened_separation manager p_i p_j"
  "clamped_separation manager p_i (p_j\<lparr>changeover := c\<rparr>) = clamped_separation manager p_i p_j"
  "exact_pairwise_accel manager p_i (p_j\<lparr>changeover := c\<rparr>) = exact_pairwise_accel manager p_i p_j"
  "linear_cutoff_term manager p_i (p_j\<lparr>changeover := c\<rparr>) = linear_cutoff_term manager p_i p_j"
  by (simp_all add: softened_separation_def clamped_separation_def exact_pairwise_accel_def
      linear_cutoff_term_def)

lemma primitive_pot:
  assumes d: "0 < vdot (vsub (pos p_i) (pos p_j)) (vsub (pos p_i) (pos p_j)) + eps_sq manager"
      and ro: "0 < r_out_base manager"
  shows "pot_tot (calcAccPotShortWithLinearCutoff ck os manager p_i p_j) =
     (if os then
        (if status p_j = 0 then
           pot_tot p_i - (if softened_separation manager p_i p_j > r_out_base manager then 0
              else mass p_j / softened_separation manager p_i p_j
                     * (1 - calcPotWTwo ck (changeover p_i) (changeover p_j)
                              (softened_separation manager p_i p_j))
                   - mass p_j / clamped_separation manager p_i p_j)
         else if status p_j < 0 then
           pot_tot p_i - (if softened_separation manager p_i p_j > r_out_base manager then 0
              else mass_bk p_j / softened_separation manager p_i p_j
                     * (1 - calcPotWTwo ck (changeover p_i) (changeover p_j)
                              (softened_separation manager p_i p_j))
                   - mass p_j / clamped_separation manager p_i p_j)
         else pot_tot p_i + mass p_j / clamped_separation manager p_i p_j)
      else
        (if status p_j = 0 then
           pot_tot p_i - (mass p_j / softened_separation manager p_i p_j
                          - mass p_j / clamped_separation manager p_i p_j)
         else if status p_j < 0 then
           pot_tot p_i - (mass_bk p_j / softened_separation manager p_i p_j
                          - mass p_j / clamped_separation manager p_i p_j)
         else pot_tot p_i + mass p_j / clamped_separation manager p_i p_j))"
proof -
  define dr where "dr = vsub (pos p_i) (pos p_j)"
  define d2 where "d2 = vdot dr dr + eps_sq manager"
  have d2: "0 < d2" using d by (simp add: d2_def dr_def)
  show ?thesis
    unfolding calcAccPotShortWithLinearCutoff_def Let_def softened_separation_def
      clamped_separation_def dr_def [symmetric] d2_def [symmetric]
    using ro
    by (simp add: real_div_sqrt [OF less_imp_le [OF d2]] sqrt_clamp [OF d2 ro]
        gt_clamp [OF d2 ro] max_def)
qed

lemma example_separation [simp]:
  "softened_separation manager_example single_i single_j = 2"
  "clamped_separation manager_example single_i single_j = 4"
  "exact_pairwise_accel manager_example single_i single_j = (- 2, 0, 0)"
  "linear_cutoff_term manager_example single_i single_j = (- 1 / 4, 0, 0)"
  "changeover_weight ramp_kernel manager_example single_i single_j = 1 / 2"
  by (simp_all add: softened_separation_def clamped_separation_def exact_pairwise_accel_def
      linear_cutoff_term_def changeover_weight_def manager_example_def single_i_def single_j_def
      ramp_kernel_def ramp_def)

section \<open>The potential of a corrected particle\<close>






lemma primitive_keeps [simp]:
  "pos (calcAccPotShortWithLinearCutoff ck os manager p q) = pos p"
  "changeover (calcAccPotShortWithLinearCutoff ck os manager p q) = changeover p"
  "ptcl_id (calcAccPotShortWithLinearCutoff ck os manager p q) = ptcl_id p"
  "status (calcAccPotShortWithLinearCutoff ck os manager p q) = status p"
  "mass (calcAccPotShortWithLinearCutoff ck os manager p q) = mass p"
  "pos (calcAccPotShortWithLinearCutoffEPJ ck os manager p q) = pos p"
  "changeover (calcAccPotShortWithLinearCutoffEPJ ck os manager p q) = changeover p"
  "ptcl_id (calcAccPotShortWithLinearCutoffEPJ ck os manager p q) = ptcl_id p"
  "status (calcAccPotShortWithLinearCutoffEPJ ck os manager p q) = status p"
  "mass (calcAccPotShortWithLinearCutoffEPJ ck os manager p q) = mass p"
  by (simp_all add: calcAccPotShortWithLinearCutoff_def calcAccPotShortWithLinearCutoffEPJ_def Let_def)







section \<open>The members of a group after the builder\<close>


lemma setMember_keeps [simp]:
  "adr_org (setMember a r c p) = adr_org p"
  "pos (setMember a r c p) = pos p"
  "vel (setMember a r c p) = vel p"
  "ptcl_id (setMember a r c p) = ptcl_id p"
  by (simp_all add: setMember_def Let_def)


lemma nth_update_adr [simp]:
  "adr_org (l[j := setMember a r c (l ! j)] ! i) = adr_org (l ! i)"
  by (cases "i = j"; cases "j < length l") (simp_all add: list_update_beyond)

lemma memberStep_proj:
  "b_local (memberStep a r c kl b) = (b_local b)[kl := setMember a r c (b_local b ! kl)]"
  "b_sys (memberStep a r c kl b) =
     (if adr_org (b_local b ! kl) \<ge> 0
      then (b_sys b)[nat (adr_org (b_local b ! kl)) :=
              setMember a r c (b_sys b ! nat (adr_org (b_local b ! kl)))]
      else b_sys b)"
  "b_remote (memberStep a r c kl b) =
     (if adr_org (b_local b ! kl) \<ge> 0 then b_remote b else b_remote b + 1)"
  by (simp_all add: memberStep_def Let_def)

lemma members_local:
  "b_local (fold (\<lambda>k. memberStep a r c (first + k)) ks b)
   = fold (\<lambda>k l. l[first + k := setMember a r c (l ! (first + k))]) ks (b_local b)"
  by (induction ks arbitrary: b) (simp_all add: memberStep_proj)

lemma members_sys:
  "b_sys (fold (\<lambda>k. memberStep a r c (first + k)) ks b)
   = fold (\<lambda>k s. s[nat (adr_org (b_local b ! (first + k))) :=
                     setMember a r c (s ! nat (adr_org (b_local b ! (first + k))))])
       (filter (\<lambda>k. adr_org (b_local b ! (first + k)) \<ge> 0) ks) (b_sys b)"
  by (induction ks arbitrary: b) (simp_all add: memberStep_proj)



lemma updateMembers_length:
  "length (b_local (updateMembers a r c first n b)) = length (b_local b)"
  "length (b_sys (updateMembers a r c first n b)) = length (b_sys b)"
proof -
  have "length (fold (\<lambda>k l. l[first + k := setMember a r c (l ! (first + k))]) ks l) = length l"
    for ks and l :: "Ptcl list"
    by (induction ks arbitrary: l) simp_all
  then show "length (b_local (updateMembers a r c first n b)) = length (b_local b)"
    by (simp add: updateMembers_def members_local)
  have "length (fold (\<lambda>k s. s[ix k := setMember a r c (s ! ix k)]) ks s) = length s"
    for ks ix and s :: "Ptcl list"
    by (induction ks arbitrary: s) simp_all
  then show "length (b_sys (updateMembers a r c first n b)) = length (b_sys b)"
    by (simp add: updateMembers_def members_sys)
qed





section \<open>The correction for a changed changeover radius: what a call keeps\<close>

lemma kept_refl [simp]: "multiplier_kept xs xs"
  by (simp add: multiplier_kept_def)

lemma kept_trans: "multiplier_kept xs ys \<Longrightarrow> multiplier_kept ys zs \<Longrightarrow> multiplier_kept xs zs"
  by (simp add: multiplier_kept_def)

lemma kept_update:
  assumes "adr_org q = adr_org (xs ! k)"
    and "changeover q = changeover (xs ! k) \<or> r_scale_next (changeover q) = 1"
  shows "multiplier_kept xs (xs[k := q])"
proof (cases "k < length xs")
  case True
  then show ?thesis using assms by (auto simp: multiplier_kept_def nth_list_update)
next
  case False
  then show ?thesis by (simp add: list_update_beyond)
qed

lemma fold_kept:
  assumes "\<And>x s. multiplier_kept s (f x s)"
  shows "multiplier_kept s (fold f xs s)"
proof (induction xs arbitrary: s)
  case Nil
  then show ?case by simp
next
  case (Cons x xs)
  show ?case using kept_trans [OF assms [of s x] Cons.IH [of "f x s"]] by simp
qed

lemma fold_noop: "(\<And>x. x \<in> set xs \<Longrightarrow> f x s = s) \<Longrightarrow> fold f xs s = s"
  by (induction xs) simp_all

lemma co_keeps [simp]:
  "changeover (calcAccChangeOverCorrection ck manager p q) = changeover p"
  "adr_org (calcAccChangeOverCorrection ck manager p q) = adr_org p"
  "ptcl_id (calcAccChangeOverCorrection ck manager p q) = ptcl_id p"
  "changeover (calcAccChangeOverCorrectionEPJ ck manager p q) = changeover p"
  "adr_org (calcAccChangeOverCorrectionEPJ ck manager p q) = adr_org p"
  "ptcl_id (calcAccChangeOverCorrectionEPJ ck manager p q) = ptcl_id p"
  by (simp_all add: calcAccChangeOverCorrection_def calcAccChangeOverCorrectionEPJ_def Let_def)

lemma neighbor_fold_keeps:
  "changeover (fold (\<lambda>nb q. if ptcl_id nb = ptcl_id q then q
                       else if c nb then calcAccChangeOverCorrectionEPJ ck manager q nb
                            else q) nbs p) = changeover p
   \<and> adr_org (fold (\<lambda>nb q. if ptcl_id nb = ptcl_id q then q
                       else if c nb then calcAccChangeOverCorrectionEPJ ck manager q nb
                            else q) nbs p) = adr_org p"
  by (induction nbs arbitrary: p) simp_all

lemma neighbor_keeps [simp]:
  "changeover (correctNeighborChangeOver ck manager tree p) = changeover p"
  "adr_org (correctNeighborChangeOver ck manager tree p) = adr_org p"
  using neighbor_fold_keeps
    [of "\<lambda>nb. r_scale_next (changeover nb) \<noteq> 1 \<or> r_scale_next (changeover p) \<noteq> 1"
      ck manager "tree p" p]
  by (simp_all add: correctNeighborChangeOver_def Let_def)

lemma artifical_kept:
  "multiplier_kept sys
     (correctArtificalChangeOver ck manager gpars ptcl_local a b n adr_first k sys)"
  unfolding correctArtificalChangeOver_def Let_def
  by (intro kept_trans [OF fold_kept fold_kept] fold_kept)
    (auto intro!: fold_kept kept_update)

lemma commit_next [simp]: "r_scale_next (updateWithRScale ch) = 1"
  by (simp add: updateWithRScale_def)

lemma commit_noop: "r_scale_next ch = 1 \<Longrightarrow> updateWithRScale ch = ch"
  by (simp add: updateWithRScale_def)

lemma real_step:
  assumes "correctRealChangeOver ck manager tree j (pl, sys) = (pl', sys')"
  shows "multiplier_kept pl pl'" "multiplier_kept sys sys'"
    "j < length pl \<Longrightarrow> r_scale_next (changeover (pl' ! j)) = 1"
    "0 \<le> adr_org (pl ! j) \<Longrightarrow> nat (adr_org (pl ! j)) < length sys
       \<Longrightarrow> r_scale_next (changeover (sys' ! nat (adr_org (pl ! j)))) = 1"
proof -
  have pl': "pl' = pl[j := (pl ! j)\<lparr>changeover := updateWithRScale (changeover (pl ! j))\<rparr>]"
    using assms by (simp add: correctRealChangeOver_def Let_def)
  show "multiplier_kept pl pl'" unfolding pl' by (intro kept_update) simp_all
  show "j < length pl \<Longrightarrow> r_scale_next (changeover (pl' ! j)) = 1" by (simp add: pl')
  show "multiplier_kept sys sys'"
  proof (cases "0 \<le> adr_org (pl ! j)")
    case True
    define s1 where
      "s1 = sys[nat (adr_org (pl ! j))
              := correctNeighborChangeOver ck manager tree (sys ! nat (adr_org (pl ! j)))]"
    have sys': "sys' = s1[nat (adr_org (pl ! j)) := (s1 ! nat (adr_org (pl ! j)))
        \<lparr>changeover := updateWithRScale (changeover (s1 ! nat (adr_org (pl ! j))))\<rparr>]"
      using assms True by (simp add: correctRealChangeOver_def Let_def s1_def)
    have "multiplier_kept sys s1" unfolding s1_def by (intro kept_update) simp_all
    moreover have "multiplier_kept s1 sys'" unfolding sys' by (intro kept_update) simp_all
    ultimately show ?thesis by (rule kept_trans)
  next
    case False
    then have "sys' = sys" using assms by (simp add: correctRealChangeOver_def Let_def)
    then show ?thesis by simp
  qed
  show "r_scale_next (changeover (sys' ! nat (adr_org (pl ! j)))) = 1"
    if "0 \<le> adr_org (pl ! j)" "nat (adr_org (pl ! j)) < length sys"
    using assms that by (auto simp: correctRealChangeOver_def Let_def)
qed

lemma real_loop:
  assumes "fold (correctRealChangeOver ck manager tree) js (pl, sys) = (pl', sys')"
  shows "multiplier_kept pl pl' \<and> multiplier_kept sys sys'
    \<and> (\<forall>j\<in>set js. (j < length pl \<longrightarrow> r_scale_next (changeover (pl' ! j)) = 1)
         \<and> (0 \<le> adr_org (pl ! j) \<and> nat (adr_org (pl ! j)) < length sys
              \<longrightarrow> r_scale_next (changeover (sys' ! nat (adr_org (pl ! j)))) = 1))"
  using assms
proof (induction js arbitrary: pl sys)
  case Nil
  then show ?case by simp
next
  case (Cons j js)
  obtain pl1 sys1 where s: "correctRealChangeOver ck manager tree j (pl, sys) = (pl1, sys1)"
    by (cases "correctRealChangeOver ck manager tree j (pl, sys)") auto
  note st = real_step [OF s]
  have r: "fold (correctRealChangeOver ck manager tree) js (pl1, sys1) = (pl', sys')"
    using Cons.prems s by simp
  note ih = Cons.IH [OF r]
  have k1: "multiplier_kept pl pl'" using st(1) ih kept_trans by blast
  have k2: "multiplier_kept sys sys'" using st(2) ih kept_trans by blast
  have e: "adr_org (pl1 ! x) = adr_org (pl ! x)" "length pl1 = length pl"
    "length sys1 = length sys" for x
    using st(1,2) by (simp_all add: multiplier_kept_def)
  have a: "j < length pl \<longrightarrow> r_scale_next (changeover (pl' ! j)) = 1"
    using st(3) ih by (simp add: multiplier_kept_def)
  have b: "0 \<le> adr_org (pl ! j) \<and> nat (adr_org (pl ! j)) < length sys
              \<longrightarrow> r_scale_next (changeover (sys' ! nat (adr_org (pl ! j)))) = 1"
    using st(4) ih by (simp add: multiplier_kept_def)
  show ?case using k1 k2 a b ih by (simp add: e)
qed

lemma cluster_step:
  assumes "correctClusterChangeOver ck manager gpars tree hard i_cl (pl, sys) = (pl', sys')"
  shows "multiplier_kept pl pl' \<and> multiplier_kept sys sys'
    \<and> (\<forall>j\<in>set [n_ptcl_in_cluster_disp hard ! i_cl..<n_ptcl_in_cluster_disp hard ! (i_cl + 1)].
         (j < length pl \<longrightarrow> r_scale_next (changeover (pl' ! j)) = 1)
         \<and> (0 \<le> adr_org (pl ! j) \<and> nat (adr_org (pl ! j)) < length sys
              \<longrightarrow> r_scale_next (changeover (sys' ! nat (adr_org (pl ! j)))) = 1))"
proof -
  define adr_first where "adr_first =
    drop (n_group_in_cluster_offset hard ! i_cl) (adr_first_ptcl_arti_in_cluster hard)"
  define sys1 where "sys1 =
    fold (\<lambda>j. fold (correctArtificalChangeOver ck manager gpars pl
                      (n_ptcl_in_cluster_disp hard ! i_cl)
                      (n_ptcl_in_cluster_disp hard ! (i_cl + 1))
                      (n_group_in_cluster hard ! i_cl) adr_first)
                 [adr_first ! j + offset_orb gpars..<Suc (adr_first ! j + offset_cm gpars)])
      [0..<n_group_in_cluster hard ! i_cl] sys"
  have k: "multiplier_kept sys sys1"
    unfolding sys1_def by (intro fold_kept artifical_kept)
  have r: "fold (correctRealChangeOver ck manager tree)
             [n_ptcl_in_cluster_disp hard ! i_cl..<n_ptcl_in_cluster_disp hard ! (i_cl + 1)]
             (pl, sys1) = (pl', sys')"
    using assms by (simp add: correctClusterChangeOver_def Let_def sys1_def adr_first_def)
  have l: "length sys1 = length sys" using k by (simp add: multiplier_kept_def)
  show ?thesis
    using real_loop [OF r] k kept_trans [of sys sys1 sys'] by (simp add: l)
qed

lemma cluster_loop:
  assumes "fold (correctClusterChangeOver ck manager gpars tree hard) cls (pl, sys) = (pl', sys')"
  shows "multiplier_kept pl pl' \<and> multiplier_kept sys sys'
    \<and> (\<forall>i_cl\<in>set cls.
         \<forall>j\<in>set [n_ptcl_in_cluster_disp hard ! i_cl..<n_ptcl_in_cluster_disp hard ! (i_cl + 1)].
         (j < length pl \<longrightarrow> r_scale_next (changeover (pl' ! j)) = 1)
         \<and> (0 \<le> adr_org (pl ! j) \<and> nat (adr_org (pl ! j)) < length sys
              \<longrightarrow> r_scale_next (changeover (sys' ! nat (adr_org (pl ! j)))) = 1))"
  using assms
proof (induction cls arbitrary: pl sys)
  case Nil
  then show ?case by simp
next
  case (Cons c cls)
  obtain pl1 sys1 where
    s: "correctClusterChangeOver ck manager gpars tree hard c (pl, sys) = (pl1, sys1)"
    by (cases "correctClusterChangeOver ck manager gpars tree hard c (pl, sys)") auto
  note st = cluster_step [OF s]
  have r: "fold (correctClusterChangeOver ck manager gpars tree hard) cls (pl1, sys1)
           = (pl', sys')"
    using Cons.prems s by simp
  note ih = Cons.IH [OF r]
  have k1: "multiplier_kept pl pl'" using st ih kept_trans by blast
  have k2: "multiplier_kept sys sys'" using st ih kept_trans by blast
  have e: "adr_org (pl1 ! x) = adr_org (pl ! x)" "length pl1 = length pl"
    "length sys1 = length sys" for x
    using st by (simp_all add: multiplier_kept_def)
  have a: "\<forall>j\<in>set [n_ptcl_in_cluster_disp hard ! c..<n_ptcl_in_cluster_disp hard ! (c + 1)].
         (j < length pl \<longrightarrow> r_scale_next (changeover (pl' ! j)) = 1)
         \<and> (0 \<le> adr_org (pl ! j) \<and> nat (adr_org (pl ! j)) < length sys
              \<longrightarrow> r_scale_next (changeover (sys' ! nat (adr_org (pl ! j)))) = 1)"
    using st ih by (simp add: multiplier_kept_def)
  show ?case using k1 k2 a ih by (simp add: e)
qed

lemma send_step:
  "multiplier_kept sys (correctSendChangeOver ck manager tree adr sys)"
  "adr < length sys
     \<Longrightarrow> r_scale_next (changeover (correctSendChangeOver ck manager tree adr sys ! adr)) = 1"
  unfolding correctSendChangeOver_def Let_def
  by (intro kept_update) simp_all

lemma send_loop:
  "multiplier_kept sys (fold (correctSendChangeOver ck manager tree) adrs sys)
   \<and> (\<forall>a\<in>set adrs. a < length sys \<longrightarrow>
         r_scale_next (changeover (fold (correctSendChangeOver ck manager tree) adrs sys ! a)) = 1)"
proof (induction adrs arbitrary: sys)
  case Nil
  then show ?case by simp
next
  case (Cons a adrs)
  let ?s1 = "correctSendChangeOver ck manager tree a sys"
  note st = send_step [where sys = sys and ck = ck and manager = manager and tree = tree
      and adr = a]
  note ih = Cons.IH [where sys = ?s1]
  have l: "length ?s1 = length sys" using st(1) by (simp add: multiplier_kept_def)
  have k: "multiplier_kept sys (fold (correctSendChangeOver ck manager tree) adrs ?s1)"
    using st(1) ih kept_trans by blast
  have a: "a < length sys \<longrightarrow>
      r_scale_next (changeover (fold (correctSendChangeOver ck manager tree) adrs ?s1 ! a)) = 1"
    using st(2) ih by (simp add: multiplier_kept_def)
  show ?case using k a ih by (simp add: l)
qed

lemma update_settles:
  assumes "correctForceForChangeOverUpdateOMP ck manager gpars tree hard adr_send (pl, sys)
           = (pl', sys')"
  shows "multiplier_kept pl pl'" "multiplier_kept sys sys'"
    "\<forall>j\<in>set (real_slots hard).
         (j < length pl \<longrightarrow> r_scale_next (changeover (pl' ! j)) = 1)
         \<and> (0 \<le> adr_org (pl ! j) \<and> nat (adr_org (pl ! j)) < length sys
              \<longrightarrow> r_scale_next (changeover (sys' ! nat (adr_org (pl ! j)))) = 1)"
    "\<forall>a\<in>set adr_send. a < length sys \<longrightarrow> r_scale_next (changeover (sys' ! a)) = 1"
proof -
  obtain pl1 sys1 where
    c: "fold (correctClusterChangeOver ck manager gpars tree hard)
          (i_cluster_changeover_update hard) (pl, sys) = (pl1, sys1)"
    by (cases "fold (correctClusterChangeOver ck manager gpars tree hard)
          (i_cluster_changeover_update hard) (pl, sys)") auto
  have r: "pl' = pl1" "sys' = fold (correctSendChangeOver ck manager tree) adr_send sys1"
    using assms c by (simp_all add: correctForceForChangeOverUpdateOMP_def Let_def)
  note cl = cluster_loop [OF c]
  note sl = send_loop [where sys = sys1 and ck = ck and manager = manager and tree = tree
      and adrs = adr_send, folded r(2)]
  have l: "length sys1 = length sys" using cl by (simp add: multiplier_kept_def)
  show "multiplier_kept pl pl'" using cl by (simp add: r(1))
  show "multiplier_kept sys sys'" using cl sl kept_trans by blast
  show "\<forall>j\<in>set (real_slots hard).
         (j < length pl \<longrightarrow> r_scale_next (changeover (pl' ! j)) = 1)
         \<and> (0 \<le> adr_org (pl ! j) \<and> nat (adr_org (pl ! j)) < length sys
              \<longrightarrow> r_scale_next (changeover (sys' ! nat (adr_org (pl ! j)))) = 1)"
    using cl sl unfolding r(1) real_slots_def multiplier_kept_def by auto
  show "\<forall>a\<in>set adr_send. a < length sys \<longrightarrow> r_scale_next (changeover (sys' ! a)) = 1"
    using sl by (simp add: l)
qed

lemma neighbor_noop:
  assumes "r_scale_next (changeover p) = 1"
    and "\<forall>nb\<in>set (tree p). ptcl_id nb \<noteq> ptcl_id p \<longrightarrow> r_scale_next (changeover nb) = 1"
  shows "correctNeighborChangeOver ck manager tree p = p"
  unfolding correctNeighborChangeOver_def Let_def
  using assms by (intro fold_noop) auto

lemma artifical_noop:
  assumes "r_scale_next (changeover (sys ! k)) = 1"
    and "\<forall>kj<n_group. r_scale_next (changeover (sys ! (adr_first ! kj + offset_orb gpars))) = 1"
    and "\<forall>kj\<in>set [a..<b]. r_scale_next (changeover (pl ! kj)) = 1"
  shows "correctArtificalChangeOver ck manager gpars pl a b n_group adr_first k sys = sys"
proof -
  have 1: "fold (\<lambda>kj s.
                    let kj_start_orb = adr_first ! kj + offset_orb gpars;
                        kj_cm = adr_first ! kj + offset_cm gpars
                    in if r_scale_next (changeover (s ! kj_start_orb)) \<noteq> 1
                          \<or> r_scale_next (changeover (sys ! k)) \<noteq> 1
                       then fold (\<lambda>kk s. if kk = k then s
                                         else s[k := calcAccChangeOverCorrection ck manager
                                                       (s ! k) (s ! kk)])
                              [kj_start_orb..<kj_cm] s
                       else s)
              [0..<n_group] sys = sys"
    using assms(1,2) by (intro fold_noop) (simp add: Let_def)
  have 2: "fold (\<lambda>kj s. if r_scale_next (changeover (pl ! kj)) \<noteq> 1
                           \<or> r_scale_next (changeover (sys ! k)) \<noteq> 1
                        then s[k := calcAccChangeOverCorrection ck manager (s ! k) (pl ! kj)]
                        else s)
           [a..<b] sys = sys"
    using assms(1,3) by (intro fold_noop) simp
  show ?thesis
    unfolding correctArtificalChangeOver_def Let_def
    using 1 2 by (simp add: Let_def)
qed

lemma real_noop:
  assumes "r_scale_next (changeover (pl ! j)) = 1"
    and "0 \<le> adr_org (pl ! j) \<longrightarrow> r_scale_next (changeover (sys ! nat (adr_org (pl ! j)))) = 1"
    and "\<forall>p. \<forall>nb\<in>set (tree p). ptcl_id nb \<noteq> ptcl_id p \<longrightarrow> r_scale_next (changeover nb) = 1"
  shows "correctRealChangeOver ck manager tree j (pl, sys) = (pl, sys)"
proof (cases "0 \<le> adr_org (pl ! j)")
  case True
  then have s: "r_scale_next (changeover (sys ! nat (adr_org (pl ! j)))) = 1"
    using assms(2) by simp
  have n: "correctNeighborChangeOver ck manager tree (sys ! nat (adr_org (pl ! j)))
           = sys ! nat (adr_org (pl ! j))"
    using s assms(3) by (intro neighbor_noop) simp_all
  show ?thesis
    using True by (simp add: correctRealChangeOver_def Let_def n commit_noop assms(1) s)
next
  case False
  then show ?thesis
    by (simp add: correctRealChangeOver_def Let_def commit_noop assms(1))
qed

lemma cluster_noop:
  assumes arti: "\<forall>j<n_group_in_cluster hard ! i_cl.
           \<forall>k\<in>set [drop (n_group_in_cluster_offset hard ! i_cl)
                         (adr_first_ptcl_arti_in_cluster hard) ! j + offset_orb gpars..<
                       Suc (drop (n_group_in_cluster_offset hard ! i_cl)
                              (adr_first_ptcl_arti_in_cluster hard) ! j + offset_cm gpars)].
             r_scale_next (changeover (sys ! k)) = 1"
    and le: "offset_orb gpars \<le> offset_cm gpars"
    and real: "\<forall>j\<in>set [n_ptcl_in_cluster_disp hard ! i_cl..<
                          n_ptcl_in_cluster_disp hard ! (i_cl + 1)].
           r_scale_next (changeover (pl ! j)) = 1
           \<and> (0 \<le> adr_org (pl ! j)
                \<longrightarrow> r_scale_next (changeover (sys ! nat (adr_org (pl ! j)))) = 1)"
    and tree: "\<forall>p. \<forall>nb\<in>set (tree p). ptcl_id nb \<noteq> ptcl_id p
                 \<longrightarrow> r_scale_next (changeover nb) = 1"
  shows "correctClusterChangeOver ck manager gpars tree hard i_cl (pl, sys) = (pl, sys)"
proof -
  define adr_first where "adr_first =
    drop (n_group_in_cluster_offset hard ! i_cl) (adr_first_ptcl_arti_in_cluster hard)"
  have first: "\<forall>kj<n_group_in_cluster hard ! i_cl.
      r_scale_next (changeover (sys ! (adr_first ! kj + offset_orb gpars))) = 1"
  proof (intro allI impI)
    fix kj
    assume kj: "kj < n_group_in_cluster hard ! i_cl"
    have "adr_first ! kj + offset_orb gpars
          \<in> set [adr_first ! kj + offset_orb gpars..<Suc (adr_first ! kj + offset_cm gpars)]"
      using le by auto
    then show "r_scale_next (changeover (sys ! (adr_first ! kj + offset_orb gpars))) = 1"
      using arti kj unfolding adr_first_def by blast
  qed
  have a: "fold (\<lambda>j. fold (correctArtificalChangeOver ck manager gpars pl
                      (n_ptcl_in_cluster_disp hard ! i_cl)
                      (n_ptcl_in_cluster_disp hard ! (i_cl + 1))
                      (n_group_in_cluster hard ! i_cl) adr_first)
                 [adr_first ! j + offset_orb gpars..<Suc (adr_first ! j + offset_cm gpars)])
      [0..<n_group_in_cluster hard ! i_cl] sys = sys"
  proof (intro fold_noop)
    fix j k
    assume j: "j \<in> set [0..<n_group_in_cluster hard ! i_cl]"
      and k: "k \<in> set [adr_first ! j + offset_orb gpars..<Suc (adr_first ! j + offset_cm gpars)]"
    have "j < n_group_in_cluster hard ! i_cl" using j by simp
    then have "r_scale_next (changeover (sys ! k)) = 1"
      using arti k unfolding adr_first_def by blast
    then show "correctArtificalChangeOver ck manager gpars pl
                 (n_ptcl_in_cluster_disp hard ! i_cl) (n_ptcl_in_cluster_disp hard ! (i_cl + 1))
                 (n_group_in_cluster hard ! i_cl) adr_first k sys = sys"
      using first real by (intro artifical_noop) simp_all
  qed
  have r: "fold (correctRealChangeOver ck manager tree)
             [n_ptcl_in_cluster_disp hard ! i_cl..<n_ptcl_in_cluster_disp hard ! (i_cl + 1)]
             (pl, sys) = (pl, sys)"
    using real tree by (intro fold_noop real_noop) simp_all
  show ?thesis
    using a r by (simp add: correctClusterChangeOver_def Let_def adr_first_def)
qed

lemma update_noop:
  assumes "\<forall>k\<in>set (artifical_addresses gpars hard). r_scale_next (changeover (sys ! k)) = 1"
    and "offset_orb gpars \<le> offset_cm gpars"
    and "\<forall>j\<in>set (real_slots hard). r_scale_next (changeover (pl ! j)) = 1
           \<and> (0 \<le> adr_org (pl ! j)
                \<longrightarrow> r_scale_next (changeover (sys ! nat (adr_org (pl ! j)))) = 1)"
    and "\<forall>a\<in>set adr_send. r_scale_next (changeover (sys ! a)) = 1"
    and "\<forall>p. \<forall>nb\<in>set (tree p). ptcl_id nb \<noteq> ptcl_id p
                 \<longrightarrow> r_scale_next (changeover nb) = 1"
  shows "correctForceForChangeOverUpdateOMP ck manager gpars tree hard adr_send (pl, sys)
         = (pl, sys)"
proof -
  have c: "fold (correctClusterChangeOver ck manager gpars tree hard)
             (i_cluster_changeover_update hard) (pl, sys) = (pl, sys)"
  proof (intro fold_noop cluster_noop assms(2,5))
    fix i_cl
    assume i: "i_cl \<in> set (i_cluster_changeover_update hard)"
    show "\<forall>j<n_group_in_cluster hard ! i_cl.
           \<forall>k\<in>set [drop (n_group_in_cluster_offset hard ! i_cl)
                         (adr_first_ptcl_arti_in_cluster hard) ! j + offset_orb gpars..<
                       Suc (drop (n_group_in_cluster_offset hard ! i_cl)
                              (adr_first_ptcl_arti_in_cluster hard) ! j + offset_cm gpars)].
             r_scale_next (changeover (sys ! k)) = 1"
      using assms(1) i unfolding artifical_addresses_def by fastforce
    show "\<forall>j\<in>set [n_ptcl_in_cluster_disp hard ! i_cl..<
                          n_ptcl_in_cluster_disp hard ! (i_cl + 1)].
           r_scale_next (changeover (pl ! j)) = 1
           \<and> (0 \<le> adr_org (pl ! j)
                \<longrightarrow> r_scale_next (changeover (sys ! nat (adr_org (pl ! j)))) = 1)"
      using assms(3) i unfolding real_slots_def by fastforce
  qed
  have s: "fold (correctSendChangeOver ck manager tree) adr_send sys = sys"
  proof (intro fold_noop)
    fix a
    assume "a \<in> set adr_send"
    then have r: "r_scale_next (changeover (sys ! a)) = 1" using assms(4) by simp
    have "correctNeighborChangeOver ck manager tree (sys ! a) = sys ! a"
      using r assms(5) by (intro neighbor_noop) simp_all
    then show "correctSendChangeOver ck manager tree a sys = sys"
      by (simp add: correctSendChangeOver_def Let_def commit_noop r)
  qed
  show ?thesis
    by (simp add: correctForceForChangeOverUpdateOMP_def Let_def c s)
qed

section \<open>The correction for a changed changeover radius on the example\<close>

lemma co_massless:
  assumes "mass p_j = 0"
  shows "calcAccChangeOverCorrection ck manager p_i p_j = p_i"
proof -
  obtain a1 a2 a3 where a: "acc p_i = (a1, a2, a3)" by (cases "acc p_i") auto
  obtain d1 d2 d3 where d: "vsub (pos p_i) (pos p_j) = (d1, d2, d3)"
    by (cases "vsub (pos p_i) (pos p_j)") auto
  have "p_i\<lparr>acc := (a1, a2, a3)\<rparr> = p_i" using a by (metis Ptcl.surjective Ptcl.update_convs(4) Ptcl.select_convs(4))
  then show ?thesis
    using assms by (simp add: calcAccChangeOverCorrection_def Let_def a d)
qed

lemma co_pair_left:
  assumes "pos p_i = (0, 0, 0)" "pos p_j = (2, 0, 0)" "mass p_j = 8"
    "changeover p_i = staged" "changeover p_j = staged"
  shows "calcAccChangeOverCorrection ramp_kernel manager_example p_i p_j
         = p_i\<lparr>acc := vsub (acc p_i) (1, 0, 0)\<rparr>"
  using assms
  by (simp add: calcAccChangeOverCorrection_def Let_def staged_def manager_example_def
      ramp_kernel_def ramp_def setR_def)

lemma co_pair_right:
  assumes "pos p_i = (2, 0, 0)" "pos p_j = (0, 0, 0)" "mass p_j = 8"
    "changeover p_i = staged" "changeover p_j = staged"
  shows "calcAccChangeOverCorrection ramp_kernel manager_example p_i p_j
         = p_i\<lparr>acc := vsub (acc p_i) (- 1, 0, 0)\<rparr>"
  using assms
  by (simp add: calcAccChangeOverCorrection_def Let_def staged_def manager_example_def
      ramp_kernel_def ramp_def setR_def)

lemma co_pair_cm:
  assumes "pos p_i = (1, 0, 0)" "pos p_j = (0, 0, 0) \<or> pos p_j = (2, 0, 0)"
    "changeover p_i = staged" "changeover p_j = staged"
  shows "calcAccChangeOverCorrection ramp_kernel manager_example p_i p_j = p_i"
proof -
  obtain a1 a2 a3 where a: "acc p_i = (a1, a2, a3)" by (cases "acc p_i") auto
  have "p_i\<lparr>acc := (a1, a2, a3)\<rparr> = p_i" using a by (metis Ptcl.surjective Ptcl.update_convs(4) Ptcl.select_convs(4))
  then show ?thesis
    using assms
    by (auto simp: calcAccChangeOverCorrection_def Let_def staged_def manager_example_def
      ramp_kernel_def ramp_def setR_def a)
qed

lemma on_axis_fields [simp]:
  "pos (on_axis x m st a) = (x, 0, 0)" "mass (on_axis x m st a) = m"
  "changeover (on_axis x m st a) = staged" "ptcl_id (on_axis x m st a) = a + 1"
  "adr_org (on_axis x m st a) = a" "acc (on_axis x m st a) = (0, 0, 0)"
  by (simp_all add: on_axis_def)

lemma staged_next [simp]: "r_scale_next staged = 2" "r_in staged = 1" "r_out staged = 3"
  by (simp_all add: staged_def)

lemma neighbor_self [simp]: "correctNeighborChangeOver ck manager self_tree p = p"
  by (simp add: correctNeighborChangeOver_def self_tree_def)

lemma commit_staged [simp]: "updateWithRScale staged = committed"
  by (simp add: updateWithRScale_def staged_def committed_def)

lemma commit_committed [simp]: "updateWithRScale committed = committed"
  by (simp add: updateWithRScale_def committed_def)

lemma committed_next [simp]: "r_scale_next committed = 1"
  by (simp add: committed_def)

lemma ranges_co:
  "[0..<(1::nat)] = [0]" "[0..<(2::nat)] = [0, 1]" "[(2::nat) + 2..<2 + 4] = [4, 5]"
  "[(2::nat) + 2..<Suc (2 + 4)] = [4, 5, 6]"
  by (simp_all add: upt_rec)

lemma arti_left:
  assumes "pos (s ! 4) = (0, 0, 0)" "pos (s ! 5) = (2, 0, 0)" "mass (s ! 5) = 8"
    "changeover (s ! 4) = staged" "changeover (s ! 5) = staged"
    "mass (pl ! 0) = 0" "mass (pl ! 1) = 0"
  shows "correctArtificalChangeOver ramp_kernel manager_example gpars_example pl 0 2 1 [2] 4 s
         = s[4 := (s ! 4)\<lparr>acc := vsub (acc (s ! 4)) (1, 0, 0)\<rparr>]"
proof -
  have "calcAccChangeOverCorrection ramp_kernel manager_example (s ! 4) (s ! 5)
        = (s ! 4)\<lparr>acc := vsub (acc (s ! 4)) (1, 0, 0)\<rparr>"
    using assms by (simp add: co_pair_left)
  then show ?thesis
    using assms(6,7)
    by (simp add: correctArtificalChangeOver_def Let_def gpars_example_def ranges_co
        assms(4) co_massless)
qed

lemma arti_right:
  assumes "pos (s ! 4) = (0, 0, 0)" "pos (s ! 5) = (2, 0, 0)" "mass (s ! 4) = 8"
    "changeover (s ! 4) = staged" "changeover (s ! 5) = staged"
    "mass (pl ! 0) = 0" "mass (pl ! 1) = 0"
  shows "correctArtificalChangeOver ramp_kernel manager_example gpars_example pl 0 2 1 [2] 5 s
         = s[5 := (s ! 5)\<lparr>acc := vsub (acc (s ! 5)) (- 1, 0, 0)\<rparr>]"
proof -
  have "calcAccChangeOverCorrection ramp_kernel manager_example (s ! 5) (s ! 4)
        = (s ! 5)\<lparr>acc := vsub (acc (s ! 5)) (- 1, 0, 0)\<rparr>"
    using assms by (simp add: co_pair_right)
  then show ?thesis
    using assms(6,7)
    by (simp add: correctArtificalChangeOver_def Let_def gpars_example_def ranges_co
        assms(4,5) co_massless)
qed

lemma arti_cm:
  assumes "pos (s ! 4) = (0, 0, 0)" "pos (s ! 5) = (2, 0, 0)" "pos (s ! 6) = (1, 0, 0)"
    "changeover (s ! 4) = staged" "changeover (s ! 5) = staged" "changeover (s ! 6) = staged"
    "mass (pl ! 0) = 0" "mass (pl ! 1) = 0"
  shows "correctArtificalChangeOver ramp_kernel manager_example gpars_example pl 0 2 1 [2] 6 s
         = s"
proof -
  have "calcAccChangeOverCorrection ramp_kernel manager_example (s ! 6) (s ! 4) = s ! 6"
    "calcAccChangeOverCorrection ramp_kernel manager_example (s ! 6) (s ! 5) = s ! 6"
    using assms by (simp_all add: co_pair_cm)
  then show ?thesis
    using assms(7,8)
    by (simp add: correctArtificalChangeOver_def Let_def gpars_example_def ranges_co
        assms(4,5,6) co_massless)
qed

lemma cluster_co:
  assumes len: "length s = 7" "length pl = 2"
    and adr: "adr_org (pl ! 0) = 0" "adr_org (pl ! 1) = 1"
    and massless: "mass (pl ! 0) = 0" "mass (pl ! 1) = 0"
    and orb: "pos (s ! 4) = (0, 0, 0)" "pos (s ! 5) = (2, 0, 0)" "mass (s ! 4) = 8"
      "mass (s ! 5) = 8"
    and cm: "pos (s ! 6) = (1, 0, 0)"
    and st: "changeover (s ! 4) = staged" "changeover (s ! 5) = staged"
      "changeover (s ! 6) = staged"
  shows "correctForceForChangeOverUpdateOMP ramp_kernel manager_example gpars_example self_tree
           hard_co [] (pl, s)
         = (pl[0 := (pl ! 0)\<lparr>changeover := updateWithRScale (changeover (pl ! 0))\<rparr>,
               1 := (pl ! 1)\<lparr>changeover := updateWithRScale (changeover (pl ! 1))\<rparr>],
            s[4 := (s ! 4)\<lparr>acc := vsub (acc (s ! 4)) (1, 0, 0)\<rparr>,
              5 := (s ! 5)\<lparr>acc := vsub (acc (s ! 5)) (- 1, 0, 0)\<rparr>,
              0 := (s ! 0)\<lparr>changeover := updateWithRScale (changeover (s ! 0))\<rparr>,
              1 := (s ! 1)\<lparr>changeover := updateWithRScale (changeover (s ! 1))\<rparr>])"
proof -
  define s4 where "s4 = s[4 := (s ! 4)\<lparr>acc := vsub (acc (s ! 4)) (1, 0, 0)\<rparr>]"
  define s5 where "s5 = s4[5 := (s ! 5)\<lparr>acc := vsub (acc (s ! 5)) (- 1, 0, 0)\<rparr>]"
  have a4: "correctArtificalChangeOver ramp_kernel manager_example gpars_example pl 0 2 1 [2] 4 s
            = s4"
    unfolding s4_def using orb st massless by (intro arti_left) simp_all
  have s4: "s4 ! 5 = s ! 5" "pos (s4 ! 4) = (0, 0, 0)" "mass (s4 ! 4) = 8"
    "changeover (s4 ! 4) = staged"
    using len orb st by (simp_all add: s4_def)
  have a5: "correctArtificalChangeOver ramp_kernel manager_example gpars_example pl 0 2 1 [2] 5 s4
            = s5"
    unfolding s5_def s4(1) [symmetric] using s4 orb st massless by (intro arti_right) simp_all
  have s5: "pos (s5 ! 4) = (0, 0, 0)" "pos (s5 ! 5) = (2, 0, 0)" "pos (s5 ! 6) = (1, 0, 0)"
    "changeover (s5 ! 4) = staged" "changeover (s5 ! 5) = staged" "changeover (s5 ! 6) = staged"
    using len orb cm st by (simp_all add: s5_def s4_def)
  have a6: "correctArtificalChangeOver ramp_kernel manager_example gpars_example pl 0 2 1 [2] 6 s5
            = s5"
    using s5 massless by (intro arti_cm) simp_all
  have arti: "fold (correctArtificalChangeOver ramp_kernel manager_example gpars_example pl 0 2 1
                [2]) [4, 5, 6] s = s5"
    using a4 a5 a6 by simp
  have real: "fold (correctRealChangeOver ramp_kernel manager_example self_tree) [0, 1] (pl, s5)
      = (pl[0 := (pl ! 0)\<lparr>changeover := updateWithRScale (changeover (pl ! 0))\<rparr>,
            1 := (pl ! 1)\<lparr>changeover := updateWithRScale (changeover (pl ! 1))\<rparr>],
         s5[0 := (s5 ! 0)\<lparr>changeover := updateWithRScale (changeover (s5 ! 0))\<rparr>,
            1 := (s5 ! 1)\<lparr>changeover := updateWithRScale (changeover (s5 ! 1))\<rparr>])"
    using len adr by (simp add: correctRealChangeOver_def Let_def s5_def s4_def)
  have s5n: "s5 ! 0 = s ! 0" "s5 ! 1 = s ! 1"
    by (simp_all add: s5_def s4_def)
  show ?thesis
    using arti real
    by (simp add: correctForceForChangeOverUpdateOMP_def correctClusterChangeOver_def Let_def
        hard_co_def gpars_example_def ranges_co s5n)
      (simp add: s5_def s4_def)
qed

lemma first_call:
  "correctForceForChangeOverUpdateOMP ramp_kernel manager_example gpars_example self_tree
     hard_co [] (local_co, store_co)
   = ([(on_axis 4 0 (- 6) 0)\<lparr>changeover := committed\<rparr>,
       (on_axis 6 0 (- 6) 1)\<lparr>changeover := committed\<rparr>],
      [(on_axis 4 0 (- 6) 0)\<lparr>changeover := committed\<rparr>,
       (on_axis 6 0 (- 6) 1)\<lparr>changeover := committed\<rparr>,
       on_axis 1 0 1 2, on_axis 1 0 1 3,
       (on_axis 0 8 1 4)\<lparr>acc := (- 1, 0, 0)\<rparr>,
       (on_axis 2 8 1 5)\<lparr>acc := (1, 0, 0)\<rparr>, on_axis 1 0 1 6])"
  by (subst cluster_co) (simp_all add: local_co_def store_co_def)

lemma second_call:
  "correctForceForChangeOverUpdateOMP ramp_kernel manager_example gpars_example self_tree
     hard_co []
     ([(on_axis 4 0 (- 6) 0)\<lparr>changeover := committed\<rparr>,
       (on_axis 6 0 (- 6) 1)\<lparr>changeover := committed\<rparr>],
      [(on_axis 4 0 (- 6) 0)\<lparr>changeover := committed\<rparr>,
       (on_axis 6 0 (- 6) 1)\<lparr>changeover := committed\<rparr>,
       on_axis 1 0 1 2, on_axis 1 0 1 3,
       (on_axis 0 8 1 4)\<lparr>acc := (- 1, 0, 0)\<rparr>,
       (on_axis 2 8 1 5)\<lparr>acc := (1, 0, 0)\<rparr>, on_axis 1 0 1 6])
   = ([(on_axis 4 0 (- 6) 0)\<lparr>changeover := committed\<rparr>,
       (on_axis 6 0 (- 6) 1)\<lparr>changeover := committed\<rparr>],
      [(on_axis 4 0 (- 6) 0)\<lparr>changeover := committed\<rparr>,
       (on_axis 6 0 (- 6) 1)\<lparr>changeover := committed\<rparr>,
       on_axis 1 0 1 2, on_axis 1 0 1 3,
       (on_axis 0 8 1 4)\<lparr>acc := (- 2, 0, 0)\<rparr>,
       (on_axis 2 8 1 5)\<lparr>acc := (2, 0, 0)\<rparr>, on_axis 1 0 1 6])"
  by (subst cluster_co) simp_all

section \<open>C1: the centre-of-mass acceleration and the tidal-tensor samples\<close>







section \<open>C2: what one call of the primitive adds to the acceleration\<close>

text \<open>
  C2, as the claim states it, does not hold. The claim says that one call changes the
  acceleration of \<open>i\<close> by \<open>(changeover_weight - 1) * exact_pairwise_accel -
  linear_cutoff_term\<close>. At the two singles of the example (distance 2, source mass 8,
  weight 1/2, outer base radius 4) the source subtracts \<open>(movr3 * k - movr3_max) * dr =
  (1 * 1/2 - 1/8) * (2, 0, 0)\<close>, so the acceleration changes by \<open>(-3/4, 0, 0)\<close>. The
  formula of the claim gives \<open>(5/4, 0, 0)\<close> when the two accelerations point from \<open>i\<close> to
  \<open>j\<close>, and \<open>(-5/4, 0, 0)\<close> when both are taken with the opposite sign, as \<open>movr3 * dr\<close>.
\<close>

theorem primitive_acc_counterexample:
  "acc (calcAccPotShortWithLinearCutoff ramp_kernel False manager_example single_i single_j)
     \<noteq> vadd (acc single_i)
        (vsub (vscale (changeover_weight ramp_kernel manager_example single_i single_j - 1)
                 (exact_pairwise_accel manager_example single_i single_j))
              (linear_cutoff_term manager_example single_i single_j))
   \<and> acc (calcAccPotShortWithLinearCutoff ramp_kernel False manager_example single_i single_j)
     \<noteq> vadd (acc single_i)
        (vsub (vscale (changeover_weight ramp_kernel manager_example single_i single_j - 1)
                 (vscale (- 1) (exact_pairwise_accel manager_example single_i single_j)))
              (vscale (- 1) (linear_cutoff_term manager_example single_i single_j)))
   \<and> acc (calcAccPotShortWithLinearCutoff ramp_kernel False manager_example single_i single_j)
     = (- 3 / 4, 0, 0)
   \<and> vadd (acc single_i)
        (vsub (vscale (changeover_weight ramp_kernel manager_example single_i single_j - 1)
                 (exact_pairwise_accel manager_example single_i single_j))
              (linear_cutoff_term manager_example single_i single_j)) = (5 / 4, 0, 0)
   \<and> vadd (acc single_i)
        (vsub (vscale (changeover_weight ramp_kernel manager_example single_i single_j - 1)
                 (vscale (- 1) (exact_pairwise_accel manager_example single_i single_j)))
              (vscale (- 1) (linear_cutoff_term manager_example single_i single_j)))
       = (- 5 / 4, 0, 0)"
proof -
  have "acc (calcAccPotShortWithLinearCutoff ramp_kernel False manager_example single_i single_j)
     = (- 3 / 4, 0, 0)"
    by (simp add: calcAccPotShortWithLinearCutoff_def Let_def manager_example_def single_i_def
        single_j_def ramp_kernel_def ramp_def)
  moreover have "acc single_i = (0, 0, 0)" by (simp add: single_i_def)
  ultimately show ?thesis by simp
qed

text \<open>
  C2, amended. Where the softened squared separation and \<^verbatim>\<open>r_out_base\<close> are positive,
  one call of the primitive (either overload, with or without \<^verbatim>\<open>ONLY_SOFT\<close>) changes
  the acceleration of \<open>i\<close> by exactly \<open>(1 - changeover_weight) * exact_pairwise_accel -
  linear_cutoff_term\<close>: the exact acceleration weighted by the complement of the
  changeover weight, minus the acceleration at the clamped separation. For a tree
  neighbour the weight is taken with a changeover built from the neighbour's two
  radii. Nothing but the acceleration and the potential of \<open>i\<close> is modified.
\<close>

theorem primitive_acc_change:
  assumes "0 < vdot (vsub (pos p_i) (pos p_j)) (vsub (pos p_i) (pos p_j)) + eps_sq manager"
      and "0 < r_out_base manager"
  shows "acc (calcAccPotShortWithLinearCutoff ck os manager p_i p_j) =
           vadd (acc p_i)
             (vsub (vscale (1 - changeover_weight ck manager p_i p_j)
                      (exact_pairwise_accel manager p_i p_j))
                   (linear_cutoff_term manager p_i p_j))
       \<and> (calcAccPotShortWithLinearCutoff ck os manager p_i p_j)
            \<lparr>acc := acc p_i, pot_tot := pot_tot p_i\<rparr> = p_i
       \<and> acc (calcAccPotShortWithLinearCutoffEPJ ck os manager p_i p_j) =
           vadd (acc p_i)
             (vsub (vscale (1 - changeover_weight ck manager p_i
                                  (p_j\<lparr>changeover := setR (r_in (changeover p_j)) (r_out (changeover p_j))\<rparr>))
                      (exact_pairwise_accel manager p_i p_j))
                   (linear_cutoff_term manager p_i p_j))
       \<and> (calcAccPotShortWithLinearCutoffEPJ ck os manager p_i p_j)
            \<lparr>acc := acc p_i, pot_tot := pot_tot p_i\<rparr> = p_i"
proof -
  let ?q = "p_j\<lparr>changeover := setR (r_in (changeover p_j)) (r_out (changeover p_j))\<rparr>"
  have q: "0 < vdot (vsub (pos p_i) (pos ?q)) (vsub (pos p_i) (pos ?q)) + eps_sq manager"
    using assms(1) by simp
  show ?thesis
    using primitive_acc [OF assms, of ck os] primitive_acc [OF q assms(2), of ck os]
    by (simp add: primitive_EPJ primitive_frame)
qed

theorem primitive_acc_change_witness:
  "acc (calcAccPotShortWithLinearCutoff ramp_kernel False manager_example single_i single_j)
     = (- 3 / 4, 0, 0)
   \<and> (calcAccPotShortWithLinearCutoff ramp_kernel False manager_example single_i single_j)
        \<lparr>acc := acc single_i, pot_tot := pot_tot single_i\<rparr> = single_i"
proof -
  have d: "0 < vdot (vsub (pos single_i) (pos single_j)) (vsub (pos single_i) (pos single_j))
               + eps_sq manager_example"
    by (simp add: single_i_def single_j_def manager_example_def)
  have ro: "0 < r_out_base manager_example"
    by (simp add: manager_example_def)
  have a: "acc single_i = (0, 0, 0)" by (simp add: single_i_def)
  show ?thesis
    using primitive_acc_change [OF d ro, of ramp_kernel False] by (simp add: a)
qed

section \<open>C3: the choice between the two integration paths\<close>

lemma n_group_offset_one: "n_group_offset nm (Suc 0) = nm 0"
  by simp

lemma drive_unfold:
  assumes "\<not> assert_checks build \<or> checkParams h4_ok ar_ok manager"
  shows "driveForMultiClusterImpl build engines h4_ok ar_ok manager gpars getGroupIndex
           ptcl_local n_ptcl ptcl_artifical n_group dt hard_dE =
         finishDrive build manager hard_dE
           (integrateCluster engines manager n_group
              (int n_ptcl - int (n_group_offset
                  (\<lambda>i. getGroupIndex ptcl_artifical (i * n_ptcl_artifical gpars)) n_group))
              (recoverMembers
                 (n_group_offset (\<lambda>i. getGroupIndex ptcl_artifical (i * n_ptcl_artifical gpars)) n_group)
                 ptcl_local)
              (recoverCm gpars n_group ptcl_artifical) dt)"
  using assms by (auto simp: driveForMultiClusterImpl_def Let_def)

text \<open>
  C3. In \<^verbatim>\<open>driveForMultiClusterImpl\<close> the single-group path (the symplectic AR
  integrator) is taken if and only if the cluster has exactly one group and no
  ungrouped single particle, that is \<^verbatim>\<open>_n_group\<close> is 1 and the group's member count is
  \<^verbatim>\<open>_n_ptcl\<close>; in every other case the mixed Hermite path is taken. When the parameter
  check passes, the routine is the chosen path run on the prepared particles, followed
  by the end of the routine.
\<close>

theorem drive_route:
  assumes "\<not> assert_checks build \<or> checkParams h4_ok ar_ok manager"
  shows "(route n_group (int n_ptcl - int (n_group_offset
             (\<lambda>i. getGroupIndex ptcl_artifical (i * n_ptcl_artifical gpars)) n_group)) = SingleGroupAR)
           = (n_group = 1 \<and> n_ptcl = getGroupIndex ptcl_artifical 0)
       \<and> (route n_group (int n_ptcl - int (n_group_offset
             (\<lambda>i. getGroupIndex ptcl_artifical (i * n_ptcl_artifical gpars)) n_group)) = MixedHermite)
           = (\<not> (n_group = 1 \<and> n_ptcl = getGroupIndex ptcl_artifical 0))
       \<and> driveForMultiClusterImpl build engines h4_ok ar_ok manager gpars getGroupIndex
           ptcl_local n_ptcl ptcl_artifical n_group dt hard_dE =
         finishDrive build manager hard_dE
           (if n_group = 1 \<and> n_ptcl = getGroupIndex ptcl_artifical 0
            then single_group_path engines manager
                   (recoverMembers (getGroupIndex ptcl_artifical 0) ptcl_local)
                   (recoverCm gpars 1 ptcl_artifical) dt
            else mixed_path engines manager
                   (recoverMembers
                      (n_group_offset (\<lambda>i. getGroupIndex ptcl_artifical (i * n_ptcl_artifical gpars)) n_group)
                      ptcl_local)
                   (recoverCm gpars n_group ptcl_artifical) dt)"
proof -
  let ?nm = "\<lambda>i. getGroupIndex ptcl_artifical (i * n_ptcl_artifical gpars)"
  have one: "n_group = 1 \<Longrightarrow> n_group_offset ?nm n_group = getGroupIndex ptcl_artifical 0"
    by simp
  have r: "(route n_group (int n_ptcl - int (n_group_offset ?nm n_group)) = SingleGroupAR)
           = (n_group = 1 \<and> n_ptcl = getGroupIndex ptcl_artifical 0)"
    using one by (auto simp: route_def)
  have m: "(route n_group (int n_ptcl - int (n_group_offset ?nm n_group)) = MixedHermite)
           = (\<not> (n_group = 1 \<and> n_ptcl = getGroupIndex ptcl_artifical 0))"
    using r by (cases "route n_group (int n_ptcl - int (n_group_offset ?nm n_group))") auto
  show ?thesis
  proof (cases "n_group = 1 \<and> n_ptcl = getGroupIndex ptcl_artifical 0")
    case True
    then have "route n_group (int n_ptcl - int (n_group_offset ?nm n_group)) = SingleGroupAR"
      using r by simp
    then show ?thesis
      using True r m one
      by (simp only: if_P [OF True] drive_unfold [OF assms] integrateCluster_def) simp
  next
    case False
    then have "route n_group (int n_ptcl - int (n_group_offset ?nm n_group)) = MixedHermite"
      using m by simp
    then show ?thesis
      using r m
      by (simp only: if_not_P [OF False] drive_unfold [OF assms] integrateCluster_def) simp
  qed
qed

theorem drive_route_witness:
  "route 1 (int 2 - int (n_group_offset (\<lambda>i. two_members block_example
       (i * n_ptcl_artifical gpars_example)) 1)) = SingleGroupAR
   \<and> route 1 (int 3 - int (n_group_offset (\<lambda>i. two_members block_example
       (i * n_ptcl_artifical gpars_example)) 1)) = MixedHermite
   \<and> route 0 (int 2 - int (n_group_offset (\<lambda>i. two_members block_example
       (i * n_ptcl_artifical gpars_example)) 0)) = MixedHermite
   \<and> route 2 (int 4 - int (n_group_offset (\<lambda>i. two_members (block_example @ block_example)
       (i * n_ptcl_artifical gpars_example)) 2)) = MixedHermite"
proof -
  have c: "\<not> assert_checks build_example \<or> checkParams True True manager_example"
    by (simp add: checkParams_def manager_example_def)
  have t: "two_members block_example 0 = 2" "two_members (block_example @ block_example) 0 = 2"
    by (simp_all add: two_members_def)
  show ?thesis
    using drive_route [OF c, of 1 2 two_members block_example gpars_example]
      drive_route [OF c, of 1 3 two_members block_example gpars_example]
      drive_route [OF c, of 0 2 two_members block_example gpars_example]
      drive_route [OF c, of 2 4 two_members "block_example @ block_example" gpars_example]
    by (simp add: t)
qed

section \<open>C4: status, backup mass and mass of the members of a group\<close>








section \<open>C5: the correction for a changed changeover radius, called twice\<close>

text \<open>
  C5, as the claim states it, does not hold. The function commits the staged radii
  (\<^verbatim>\<open>updateWithRScale\<close>) of the real particles of the flagged clusters, in the buffer and
  in the store, and of the particles of the sending list. It reads the multiplier of the
  orbital and centre-of-mass particles of the groups and of the neighbour copies of the
  tree, but commits none of them. In the example the two members and the artificial
  particles of their group have the staged multiplier 2; after the first call the
  members have the multiplier 1, the orbital sample at address 4 still has 2, and the
  second call corrects its acceleration again, from \<open>(-1, 0, 0)\<close> to \<open>(-2, 0, 0)\<close>.
\<close>

theorem changeover_update_counterexample:
  "acc (snd (correctForceForChangeOverUpdateOMP ramp_kernel manager_example gpars_example
              self_tree hard_co [] (local_co, store_co)) ! 4) = (- 1, 0, 0)
   \<and> acc (snd (correctForceForChangeOverUpdateOMP ramp_kernel manager_example gpars_example
              self_tree hard_co []
              (correctForceForChangeOverUpdateOMP ramp_kernel manager_example gpars_example
                 self_tree hard_co [] (local_co, store_co))) ! 4) = (- 2, 0, 0)
   \<and> map (\<lambda>p. r_scale_next (changeover p))
         (fst (correctForceForChangeOverUpdateOMP ramp_kernel manager_example gpars_example
                 self_tree hard_co [] (local_co, store_co))) = [1, 1]
   \<and> map (\<lambda>p. r_scale_next (changeover p))
         (snd (correctForceForChangeOverUpdateOMP ramp_kernel manager_example gpars_example
                 self_tree hard_co [] (local_co, store_co))) = [1, 1, 2, 2, 2, 2, 2]
   \<and> correctForceForChangeOverUpdateOMP ramp_kernel manager_example gpars_example
         self_tree hard_co []
         (correctForceForChangeOverUpdateOMP ramp_kernel manager_example gpars_example
            self_tree hard_co [] (local_co, store_co))
       \<noteq> correctForceForChangeOverUpdateOMP ramp_kernel manager_example gpars_example
           self_tree hard_co [] (local_co, store_co)"
proof -
  have 1: "acc (snd (correctForceForChangeOverUpdateOMP ramp_kernel manager_example
                       gpars_example self_tree hard_co [] (local_co, store_co)) ! 4)
           = (- 1, 0, 0)"
    by (simp add: first_call)
  have 2: "acc (snd (correctForceForChangeOverUpdateOMP ramp_kernel manager_example
                       gpars_example self_tree hard_co []
                       (correctForceForChangeOverUpdateOMP ramp_kernel manager_example
                          gpars_example self_tree hard_co [] (local_co, store_co))) ! 4)
           = (- 2, 0, 0)"
    by (simp add: first_call second_call)
  have 3: "map (\<lambda>p. r_scale_next (changeover p))
             (fst (correctForceForChangeOverUpdateOMP ramp_kernel manager_example gpars_example
                     self_tree hard_co [] (local_co, store_co))) = [1, 1]"
    by (simp add: first_call)
  have 4: "map (\<lambda>p. r_scale_next (changeover p))
             (snd (correctForceForChangeOverUpdateOMP ramp_kernel manager_example gpars_example
                     self_tree hard_co [] (local_co, store_co))) = [1, 1, 2, 2, 2, 2, 2]"
    by (simp add: first_call)
  have 5: "correctForceForChangeOverUpdateOMP ramp_kernel manager_example gpars_example
             self_tree hard_co []
             (correctForceForChangeOverUpdateOMP ramp_kernel manager_example gpars_example
                self_tree hard_co [] (local_co, store_co))
           \<noteq> correctForceForChangeOverUpdateOMP ramp_kernel manager_example gpars_example
               self_tree hard_co [] (local_co, store_co)"
    using 1 2 by auto
  show ?thesis using 1 2 3 4 5 by blast
qed

text \<open>
  C5, amended. If the orbital and centre-of-mass particles of the groups of the flagged
  clusters have the multiplier 1 in the store, and so has every neighbour copy that the
  tree gives for a particle other than the particle itself, then a second call in a row
  is a no-op: it returns the buffer and the store as the first call left them. The real
  particles of the flagged clusters and the particles of the sending list may have any
  staged multiplier; the first call commits them. Assumed of the arrays: the orbital
  offset of a group is not above the centre-of-mass offset, the slots of the flagged
  clusters lie in the buffer, and the non-negative addresses of their particles and the
  addresses of the sending list lie in the store.
\<close>

theorem changeover_update_idempotent:
  assumes "\<forall>k\<in>set (artifical_addresses gpars hard). r_scale_next (changeover (sys ! k)) = 1"
      and "\<forall>p. \<forall>nb\<in>set (tree p). ptcl_id nb \<noteq> ptcl_id p
                 \<longrightarrow> r_scale_next (changeover nb) = 1"
      and "offset_orb gpars \<le> offset_cm gpars"
      and "\<forall>j\<in>set (real_slots hard). j < length ptcl_local
             \<and> (0 \<le> adr_org (ptcl_local ! j)
                  \<longrightarrow> nat (adr_org (ptcl_local ! j)) < length sys)"
      and "\<forall>a\<in>set adr_send. a < length sys"
  shows "correctForceForChangeOverUpdateOMP ck manager gpars tree hard adr_send
           (correctForceForChangeOverUpdateOMP ck manager gpars tree hard adr_send
              (ptcl_local, sys))
         = correctForceForChangeOverUpdateOMP ck manager gpars tree hard adr_send
             (ptcl_local, sys)"
proof -
  obtain pl' sys' where
    f: "correctForceForChangeOverUpdateOMP ck manager gpars tree hard adr_send (ptcl_local, sys)
        = (pl', sys')"
    by (cases "correctForceForChangeOverUpdateOMP ck manager gpars tree hard adr_send
                 (ptcl_local, sys)") auto
  note s = update_settles [OF f]
  have e: "adr_org (pl' ! j) = adr_org (ptcl_local ! j)" for j
    using s(1) by (simp add: multiplier_kept_def)
  have a: "\<forall>k\<in>set (artifical_addresses gpars hard). r_scale_next (changeover (sys' ! k)) = 1"
    using assms(1) s(2) by (simp add: multiplier_kept_def)
  have r: "\<forall>j\<in>set (real_slots hard). r_scale_next (changeover (pl' ! j)) = 1
           \<and> (0 \<le> adr_org (pl' ! j)
                \<longrightarrow> r_scale_next (changeover (sys' ! nat (adr_org (pl' ! j)))) = 1)"
    using assms(4) s(3) by (simp add: e)
  have t: "\<forall>a\<in>set adr_send. r_scale_next (changeover (sys' ! a)) = 1"
    using assms(5) s(4) by simp
  show ?thesis
    unfolding f by (rule update_noop [OF a assms(3) r t assms(2)])
qed

theorem changeover_update_idempotent_witness:
  "correctForceForChangeOverUpdateOMP ramp_kernel manager_example gpars_example pair_tree
     hard_co [1]
     (correctForceForChangeOverUpdateOMP ramp_kernel manager_example gpars_example pair_tree
        hard_co [1] (local_co, store_settled))
   = correctForceForChangeOverUpdateOMP ramp_kernel manager_example gpars_example pair_tree
       hard_co [1] (local_co, store_settled)
   \<and> r_scale_next (changeover (local_co ! 0)) = 2
   \<and> r_scale_next (changeover (store_settled ! 1)) = 2"
proof -
  have a: "\<forall>k\<in>set (artifical_addresses gpars_example hard_co).
             r_scale_next (changeover (store_settled ! k)) = 1"
    by (simp add: artifical_addresses_def gpars_example_def hard_co_def ranges_co
        store_settled_def)
  have t: "\<forall>p. \<forall>nb\<in>set (pair_tree p). ptcl_id nb \<noteq> ptcl_id p
                 \<longrightarrow> r_scale_next (changeover nb) = 1"
    by (simp add: pair_tree_def single_i_def single_j_def)
  have o: "offset_orb gpars_example \<le> offset_cm gpars_example"
    by (simp add: gpars_example_def)
  have r: "\<forall>j\<in>set (real_slots hard_co). j < length local_co
             \<and> (0 \<le> adr_org (local_co ! j)
                  \<longrightarrow> nat (adr_org (local_co ! j)) < length store_settled)"
    by (simp add: real_slots_def hard_co_def ranges_co local_co_def store_settled_def)
  have s: "\<forall>a\<in>set [1::nat]. a < length store_settled"
    by (simp add: store_settled_def)
  have v: "r_scale_next (changeover (local_co ! 0)) = 2"
    "r_scale_next (changeover (store_settled ! 1)) = 2"
    by (simp_all add: local_co_def store_settled_def)
  show ?thesis
    using changeover_update_idempotent [OF a t o r s, of ramp_kernel manager_example] v
    by simp
qed

section \<open>C6: the staged changeover radius of the members of a group\<close>



section \<open>C7: the potential correction selects by the status of the source\<close>

text \<open>
  C7. Where the softened squared separation and \<^verbatim>\<open>r_out_base\<close> are positive, the
  potential correction of the primitive selects by the status of the source \<open>j\<close>: with
  status 0 it uses the live mass of \<open>j\<close> over the softened separation, with a negative
  status the backup mass \<^verbatim>\<open>mass_bk\<close>, and with a positive status \<open>j\<close> is left out of the
  potential sum and the potential of \<open>i\<close> increases by the mass of \<open>j\<close> over the clamped
  separation, the linear-cutoff term. In the first two cases the linear-cutoff term
  (with the live mass) is removed as well; a build with \<^verbatim>\<open>ONLY_SOFT\<close> weights the first
  term by the potential changeover and corrects nothing beyond \<^verbatim>\<open>r_out_base\<close>. Both
  overloads compute the same values.
\<close>

theorem primitive_pot_by_status:
  assumes "0 < vdot (vsub (pos p_i) (pos p_j)) (vsub (pos p_i) (pos p_j)) + eps_sq manager"
      and "0 < r_out_base manager"
  shows "pot_tot (calcAccPotShortWithLinearCutoff ck False manager p_i p_j) =
          (if status p_j = 0 then
             pot_tot p_i - (mass p_j / softened_separation manager p_i p_j
                            - mass p_j / clamped_separation manager p_i p_j)
           else if status p_j < 0 then
             pot_tot p_i - (mass_bk p_j / softened_separation manager p_i p_j
                            - mass p_j / clamped_separation manager p_i p_j)
           else pot_tot p_i + mass p_j / clamped_separation manager p_i p_j)
       \<and> pot_tot (calcAccPotShortWithLinearCutoff ck True manager p_i p_j) =
          (if status p_j = 0 then
             pot_tot p_i - (if softened_separation manager p_i p_j > r_out_base manager then 0
                else mass p_j / softened_separation manager p_i p_j
                       * (1 - calcPotWTwo ck (changeover p_i) (changeover p_j)
                                (softened_separation manager p_i p_j))
                     - mass p_j / clamped_separation manager p_i p_j)
           else if status p_j < 0 then
             pot_tot p_i - (if softened_separation manager p_i p_j > r_out_base manager then 0
                else mass_bk p_j / softened_separation manager p_i p_j
                       * (1 - calcPotWTwo ck (changeover p_i) (changeover p_j)
                                (softened_separation manager p_i p_j))
                     - mass p_j / clamped_separation manager p_i p_j)
           else pot_tot p_i + mass p_j / clamped_separation manager p_i p_j)
       \<and> pot_tot (calcAccPotShortWithLinearCutoffEPJ ck False manager p_i p_j)
           = pot_tot (calcAccPotShortWithLinearCutoff ck False manager p_i p_j)
       \<and> pot_tot (calcAccPotShortWithLinearCutoffEPJ ck True manager p_i p_j)
           = pot_tot (calcAccPotShortWithLinearCutoff ck True manager p_i
               (p_j\<lparr>changeover := setR (r_in (changeover p_j)) (r_out (changeover p_j))\<rparr>))"
proof -
  let ?q = "p_j\<lparr>changeover := setR (r_in (changeover p_j)) (r_out (changeover p_j))\<rparr>"
  have q: "0 < vdot (vsub (pos p_i) (pos ?q)) (vsub (pos p_i) (pos ?q)) + eps_sq manager"
    using assms(1) by simp
  have 1: "pot_tot (calcAccPotShortWithLinearCutoffEPJ ck False manager p_i p_j)
           = pot_tot (calcAccPotShortWithLinearCutoff ck False manager p_i p_j)"
    unfolding primitive_EPJ primitive_pot [OF assms] primitive_pot [OF q assms(2)] by simp
  show ?thesis
    using primitive_pot [OF assms, of ck False] primitive_pot [OF assms, of ck True] 1
    by (simp add: primitive_EPJ)
qed

theorem primitive_pot_by_status_witness:
  "pot_tot (calcAccPotShortWithLinearCutoff ramp_kernel False manager_example single_i single_j) = - 2
   \<and> pot_tot (calcAccPotShortWithLinearCutoff ramp_kernel False manager_example single_i member_j) = - 4
   \<and> pot_tot (calcAccPotShortWithLinearCutoff ramp_kernel False manager_example single_i orbital_j) = 2"
proof -
  have ro: "0 < r_out_base manager_example"
    by (simp add: manager_example_def)
  have d1: "0 < vdot (vsub (pos single_i) (pos single_j)) (vsub (pos single_i) (pos single_j))
               + eps_sq manager_example"
    by (simp add: single_i_def single_j_def manager_example_def)
  have d2: "0 < vdot (vsub (pos single_i) (pos member_j)) (vsub (pos single_i) (pos member_j))
               + eps_sq manager_example"
    by (simp add: single_i_def single_j_def member_j_def manager_example_def)
  have d3: "0 < vdot (vsub (pos single_i) (pos orbital_j)) (vsub (pos single_i) (pos orbital_j))
               + eps_sq manager_example"
    by (simp add: single_i_def single_j_def orbital_j_def manager_example_def)
  have s: "softened_separation manager_example single_i member_j = 2"
      "clamped_separation manager_example single_i member_j = 4"
      "softened_separation manager_example single_i orbital_j = 2"
      "clamped_separation manager_example single_i orbital_j = 4"
    by (simp_all add: softened_separation_def clamped_separation_def manager_example_def
        single_i_def single_j_def member_j_def orbital_j_def)
  have f: "status single_j = 0" "mass single_j = 8" "pot_tot single_i = 0"
      "status member_j = - 5" "mass member_j = 0" "mass_bk member_j = 8"
      "status orbital_j = 1" "mass orbital_j = 8"
    by (simp_all add: single_i_def single_j_def member_j_def orbital_j_def)
  show ?thesis
    using primitive_pot_by_status [OF d1 ro, of ramp_kernel]
      primitive_pot_by_status [OF d2 ro, of ramp_kernel]
      primitive_pot_by_status [OF d3 ro, of ramp_kernel]
    by (simp add: s f)
qed

section \<open>C8: the energy check at the end of the drive routine\<close>

lemma drive_int_abs_example:
  "driveForMultiClusterImpl build_int_abs engines_drift True True manager_tight gpars_example
     two_members [single_i, single_j] 2 block_example 1 1 0
     = Inr (recoverMembers 2 [single_i, single_j], recoverCm gpars_example 1 block_example, 1 / 512)
   \<and> driveForMultiClusterImpl build_int_abs engines_drift True True manager_tight gpars_example
     two_members [single_i, single_j, single_j] 3 block_example 1 1 0
     = Inl (EnergyAbort ''hard_dump'')"
proof -
  have c: "\<not> assert_checks build_int_abs \<or> checkParams True True manager_tight"
    by (simp add: checkParams_def manager_tight_def manager_example_def)
  have f: "\<lfloor>1 / 512 :: real\<rfloor> = 0" by (simp add: floor_eq_iff)
  show ?thesis
    unfolding drive_unfold [OF c]
    by (simp add: two_members_def integrateCluster_def route_def
        engines_drift_def numeral_2_eq_2 finishDrive_def checkEnergy_def Let_def
        build_int_abs_def abs_int_def manager_tight_def manager_example_def f)
qed



section \<open>C9: the self-potential correction\<close>



section \<open>C10: the isolated single-particle drive\<close>

text \<open>
  C10. For every particle of the stored hard-particle buffer, the isolated
  single-particle drive with step \<open>dt\<close> (sequential and OpenMP variant) sets the
  position to \<open>pos + vel * dt\<close> and recomputes the search radius; mass, velocity, id,
  status, mass_bk, adr_org and the changeover state stay as they were, and the buffer
  keeps its length.
\<close>

theorem driveForOneCluster_frame:
  assumes "i < length ps"
  shows "length (driveForOneCluster rs dt ps) = length ps
       \<and> length (driveForOneClusterOMP rs dt ps) = length ps
       \<and> driveForOneClusterOMP rs dt ps ! i = driveForOneCluster rs dt ps ! i
       \<and> pos (driveForOneCluster rs dt ps ! i) = vadd (pos (ps ! i)) (vscale dt (vel (ps ! i)))
       \<and> r_search (driveForOneCluster rs dt ps ! i)
           = rs ((ps ! i)\<lparr>pos := vadd (pos (ps ! i)) (vscale dt (vel (ps ! i)))\<rparr>) dt
       \<and> mass (driveForOneCluster rs dt ps ! i) = mass (ps ! i)
       \<and> vel (driveForOneCluster rs dt ps ! i) = vel (ps ! i)
       \<and> ptcl_id (driveForOneCluster rs dt ps ! i) = ptcl_id (ps ! i)
       \<and> status (driveForOneCluster rs dt ps ! i) = status (ps ! i)
       \<and> mass_bk (driveForOneCluster rs dt ps ! i) = mass_bk (ps ! i)
       \<and> adr_org (driveForOneCluster rs dt ps ! i) = adr_org (ps ! i)
       \<and> changeover (driveForOneCluster rs dt ps ! i) = changeover (ps ! i)"
proof -
  have seq: "driveForOneCluster rs dt ps = map (driveOneParticle rs dt) ps"
    unfolding driveForOneCluster_def by (rule fold_update_all)
  have omp: "driveForOneClusterOMP rs dt ps = map (driveOneParticle rs dt) ps"
    unfolding driveForOneClusterOMP_def by (rule fold_update_all)
  show ?thesis
    using assms by (simp add: seq omp driveOneParticle_def calcRSearch_def Let_def)
qed

theorem driveForOneCluster_frame_witness:
  "pos (driveForOneCluster rs_example 2 [ptcl_example] ! 0) = (7, 2, 11)
   \<and> mass (driveForOneCluster rs_example 2 [ptcl_example] ! 0) = 1
   \<and> vel (driveForOneCluster rs_example 2 [ptcl_example] ! 0) = (3, 0, 4)
   \<and> status (driveForOneCluster rs_example 2 [ptcl_example] ! 0) = 0
   \<and> ptcl_id (driveForOneCluster rs_example 2 [ptcl_example] ! 0) = 7"
  using driveForOneCluster_frame [of 0 "[ptcl_example]" rs_example 2]
  by (simp add: ptcl_example_def)

end
